theory Spec2Isabelle
  imports Main "HOL-Library.Word" "HOL-Library.Sublist" "HOL-Library.List_Lexorder"
    "HOL-Library.Char_ord"
begin

section \<open>Failures, tokens and parse-tree items\<close>

text \<open>
  The mk tools report every error by throwing; nothing is caught inside the code embedded
  here, so a throw ends the function. A function that can throw returns \<open>failure + 'a\<close>.
  \<open>Exception_t\<close> carries the message of an \<open>mk::Exception_t\<close> (the file, line and column
  that \<open>Token_t::ThrowException\<close> and \<open>Lexer_t::ThrowException\<close> put in front of it are
  left out), \<open>invalid_argument\<close> the message of a \<open>std::invalid_argument\<close>.
  \<open>UndefinedBehaviour\<close> marks the places where the C++ reads outside a container
  (\<open>Contents()[i]\<close> past the end, \<open>back()\<close> of an empty string): the model stops there
  instead of inventing a value.
\<close>

datatype failure = Exception_t string | invalid_argument string | UndefinedBehaviour

definition andThen :: "failure + 'a \<Rightarrow> ('a \<Rightarrow> failure + 'b) \<Rightarrow> failure + 'b" where
  "andThen m f = (case m of Inl e \<Rightarrow> Inl e | Inr x \<Rightarrow> f x)"

text \<open>A loop over a container whose body may throw and may replace the element.\<close>

fun forEach :: "('a \<Rightarrow> failure + 'b) \<Rightarrow> 'a list \<Rightarrow> failure + 'b list" where
  "forEach f [] = Inr []"
| "forEach f (x # xs) =
     (case f x of
        Inl e \<Rightarrow> Inl e
      | Inr y \<Rightarrow> (case forEach f xs of Inl e \<Rightarrow> Inl e | Inr ys \<Rightarrow> Inr (y # ys)))"

text \<open>A loop over a container whose body may throw and updates generator state.\<close>

fun foldEach :: "('a \<Rightarrow> 's \<Rightarrow> failure + 's) \<Rightarrow> 'a list \<Rightarrow> 's \<Rightarrow> failure + 's" where
  "foldEach f [] s = Inr s"
| "foldEach f (x # xs) s = (case f x s of Inl e \<Rightarrow> Inl e | Inr s' \<Rightarrow> foldEach f xs s')"

text \<open>The token types of \<open>parseTree::Token_t::Type_t\<close> that the embedded code names.\<close>

datatype Type_t =
    END_OF_FILE | OPEN_CURLY | CLOSE_CURLY | OPEN_PARENTHESIS | CLOSE_PARENTHESIS
  | COLON | EQUALS | WHITESPACE | COMMENT | FILE_PERMISSIONS | FILE_PATH | NAME | INTEGER

record Token_t =
  tokType :: Type_t
  tokText :: string
  tokLine :: nat
  tokColumn :: nat

text \<open>
  Modelled from the spec: \<open>parseTree::TokenList_t\<close> (its sections and items), whose class
  is not among the sources. A node keeps its first token, the content tokens added to it
  and its last token; \<open>AddContent\<close> appends a content token, which becomes the last token
  (\<open>ParsePriority\<close> reads the content of a simple section through \<open>lastTokenPtr\<close>).
\<close>

record TokenList_t =
  firstTokenPtr :: Token_t
  contents :: "Token_t list"
  lastTokenPtr :: Token_t

definition CreateTokenList :: "Token_t \<Rightarrow> TokenList_t" where
  "CreateTokenList firstPtr =
     \<lparr>firstTokenPtr = firstPtr, contents = [], lastTokenPtr = firstPtr\<rparr>"

definition AddContent :: "Token_t \<Rightarrow> TokenList_t \<Rightarrow> TokenList_t" where
  "AddContent contentPtr node =
     node\<lparr>contents := contents node @ [contentPtr], lastTokenPtr := contentPtr\<rparr>"

text \<open>\<open>Contents()[i]\<close>: reading past the end of the vector is undefined in C++.\<close>

definition Contents_at :: "TokenList_t \<Rightarrow> nat \<Rightarrow> failure + Token_t" where
  "Contents_at node i =
     (if i < length (contents node) then Inr (contents node ! i) else Inl UndefinedBehaviour)"

text \<open>
  \<open>s[i]\<close> on a \<open>const std::string\<close>: the character at \<open>i\<close>, and the terminating
  \<open>'\0'\<close> at \<open>i = size()\<close>. Every read in the embedded code is at most at \<open>size()\<close>.
\<close>

definition char_at :: "string \<Rightarrow> nat \<Rightarrow> char" where
  "char_at s i = (if i < length s then s ! i else CHR 0x00)"

definition isdigit :: "char \<Rightarrow> bool" where
  "isdigit c = (CHR ''0'' \<le> c \<and> c \<le> CHR ''9'')"

section \<open>The modeller: file system objects\<close>

record Permissions_t =
  readable :: bool
  writeable :: bool
  executable :: bool

text \<open>
  The class \<open>model::Permissions_t\<close> is not among the sources. Its default constructor is
  taken to clear the three flags; the comment in \<open>GetPermissionItem\<close>, "If no
  permissions, default to read-only", sets only the read flag on such an object.
\<close>

definition Permissions_default :: Permissions_t where
  "Permissions_default = \<lparr>readable = False, writeable = False, executable = False\<rparr>"

definition SetReadable :: "Permissions_t \<Rightarrow> Permissions_t" where
  "SetReadable p = p\<lparr>readable := True\<rparr>"

definition SetWriteable :: "Permissions_t \<Rightarrow> Permissions_t" where
  "SetWriteable p = p\<lparr>writeable := True\<rparr>"

definition SetExecutable :: "Permissions_t \<Rightarrow> Permissions_t" where
  "SetExecutable p = p\<lparr>executable := True\<rparr>"

text \<open>
  \<open>model::FileSystemObject_t\<close>. Its \<open>parseTreePtr\<close>, used only to place an exception in
  the definition file, is left out.
\<close>

record FileSystemObject_t =
  srcPath :: string
  destPath :: string
  permissions :: Permissions_t

text \<open>
  Helpers of the mk tools that are not among the sources are parameters of the model:
  environment-variable substitution, unquoting and the path functions.
\<close>

record Externals =
  DoSubstitution :: "string \<Rightarrow> string"
  Unquote :: "string \<Rightarrow> string"
  GetLastNode :: "string \<Rightarrow> string"
  Combine :: "string \<Rightarrow> string \<Rightarrow> string"
  PathAppend :: "string \<Rightarrow> string \<Rightarrow> string"

text \<open>
  \<open>GetPermissions\<close>: the loop \<open>for (i = 1; permissionsText[i] != ']'; i++)\<close>, started
  on the text after its first character. A text with no \<open>]\<close> makes the C++ read past the
  end.
\<close>

fun GetPermissions_loop :: "Permissions_t \<Rightarrow> string \<Rightarrow> failure + Permissions_t" where
  "GetPermissions_loop p [] = Inl UndefinedBehaviour"
| "GetPermissions_loop p (c # cs) =
     (if c = CHR '']'' then Inr p
      else GetPermissions_loop
             (if c = CHR ''r'' then SetReadable p
              else if c = CHR ''w'' then SetWriteable p
              else if c = CHR ''x'' then SetExecutable p
              else p) cs)"

definition GetPermissions :: "Permissions_t \<Rightarrow> Token_t \<Rightarrow> failure + Permissions_t" where
  "GetPermissions p tokenPtr = GetPermissions_loop p (drop 1 (tokText tokenPtr))"

definition GetPermissionItem :: "Externals \<Rightarrow> TokenList_t \<Rightarrow> failure + FileSystemObject_t" where
  "GetPermissionItem ext itemPtr =
     andThen (Contents_at itemPtr 0) (\<lambda>firstTokenPtr.
     andThen
       (if tokType firstTokenPtr = FILE_PERMISSIONS
        then andThen (Contents_at itemPtr 1) (\<lambda>srcTok.
             andThen (Contents_at itemPtr 2) (\<lambda>destTok.
             andThen (GetPermissions Permissions_default firstTokenPtr) (\<lambda>perms.
               Inr (tokText srcTok, tokText destTok, perms))))
        else andThen (Contents_at itemPtr 1) (\<lambda>destTok.
               Inr (tokText firstTokenPtr, tokText destTok, SetReadable Permissions_default)))
       (\<lambda>(srcPathPtr, destPathPtr, perms).
          let src = Unquote ext (DoSubstitution ext srcPathPtr);
              dest = Unquote ext (DoSubstitution ext destPathPtr)
          in if dest = [] then Inl UndefinedBehaviour
             else Inr \<lparr>srcPath = src,
                       destPath = (if last dest = CHR ''/'' then dest @ GetLastNode ext src
                                   else dest),
                       permissions = perms\<rparr>))"

definition GetBundledItem :: "Externals \<Rightarrow> TokenList_t \<Rightarrow> failure + FileSystemObject_t" where
  "GetBundledItem ext itemPtr = GetPermissionItem ext itemPtr"

definition GetRequiredFileOrDir :: "Externals \<Rightarrow> TokenList_t \<Rightarrow> failure + FileSystemObject_t" where
  "GetRequiredFileOrDir ext itemPtr =
     andThen (Contents_at itemPtr 0) (\<lambda>srcPathTokenPtr.
     andThen (Contents_at itemPtr 1) (\<lambda>destPathTokenPtr.
       let src = Unquote ext (DoSubstitution ext (tokText srcPathTokenPtr));
           dest = Unquote ext (DoSubstitution ext (tokText destPathTokenPtr))
       in if src = [] then Inl UndefinedBehaviour
          else if last src = CHR ''/''
          then Inl (Exception_t ''Required item's path must not end in a '/'.'')
          else if dest = [] then Inl UndefinedBehaviour
          else Inr \<lparr>srcPath = src,
                    destPath = (if last dest = CHR ''/'' then dest @ GetLastNode ext src
                                else dest),
                    permissions = Permissions_default\<rparr>))"

definition GetRequiredDevice :: "Externals \<Rightarrow> TokenList_t \<Rightarrow> failure + FileSystemObject_t" where
  "GetRequiredDevice ext itemPtr =
     andThen (GetPermissionItem ext itemPtr) (\<lambda>permPtr.
       if executable (permissions permPtr)
       then Inl (invalid_argument
                  (''Execute permission is not allowed on devices: '' @ [CHR 0x27]
                   @ srcPath permPtr @ [CHR 0x27]))
       else Inr permPtr)"

section \<open>The modeller: integer values\<close>

text \<open>
  \<open>strtoul\<close> and \<open>strtol\<close> of the C library, called with base 0, on a platform whose
  \<open>long\<close> and \<open>size_t\<close> have 64 bits: white space is skipped, a sign is read, a
  \<open>0x\<close> or \<open>0X\<close> before a hexadecimal digit selects base 16, another leading \<open>0\<close>
  base 8, anything else base 10; the digits of that base are read as far as they go. The
  result is the value, the text from the first character not read (what \<open>endPtr\<close> points
  to) and whether \<open>errno\<close> was set (to ERANGE, when the value does not fit). With no
  digit there is no conversion: the value is 0 and \<open>endPtr\<close> is the start of the text.
\<close>

definition isspace :: "char \<Rightarrow> bool" where
  "isspace c = (c = CHR '' '' \<or> c = CHR 0x09 \<or> c = CHR 0x0A \<or> c = CHR 0x0B
                \<or> c = CHR 0x0C \<or> c = CHR 0x0D)"

definition digit_value :: "char \<Rightarrow> nat option" where
  "digit_value c =
     (if CHR ''0'' \<le> c \<and> c \<le> CHR ''9'' then Some (of_char c - 48)
      else if CHR ''a'' \<le> c \<and> c \<le> CHR ''z'' then Some (of_char c - 87)
      else if CHR ''A'' \<le> c \<and> c \<le> CHR ''Z'' then Some (of_char c - 55)
      else None)"

definition is_digit_of :: "nat \<Rightarrow> char \<Rightarrow> bool" where
  "is_digit_of base c = (case digit_value c of None \<Rightarrow> False | Some d \<Rightarrow> d < base)"

fun scan_digits :: "nat \<Rightarrow> string \<Rightarrow> nat \<Rightarrow> nat \<times> string" where
  "scan_digits base [] acc = (acc, [])"
| "scan_digits base (c # cs) acc =
     (if is_digit_of base c
      then scan_digits base cs (acc * base + the (digit_value c))
      else (acc, c # cs))"

definition strto_subject :: "string \<Rightarrow> (bool \<times> nat \<times> string) option" where
  "strto_subject nptr =
     (let s = dropWhile isspace nptr;
          negative = (char_at s 0 = CHR ''-'');
          s1 = (if char_at s 0 = CHR ''-'' \<or> char_at s 0 = CHR ''+'' then drop 1 s else s)
      in if char_at s1 0 = CHR ''0'' \<and> (char_at s1 1 = CHR ''x'' \<or> char_at s1 1 = CHR ''X'')
            \<and> 2 < length s1 \<and> is_digit_of 16 (char_at s1 2)
         then Some (negative, scan_digits 16 (drop 2 s1) 0)
         else if char_at s1 0 = CHR ''0''
         then Some (negative, scan_digits 8 s1 0)
         else if s1 \<noteq> [] \<and> is_digit_of 10 (char_at s1 0)
         then Some (negative, scan_digits 10 s1 0)
         else None)"

definition ULONG_MAX :: nat where
  "ULONG_MAX = 18446744073709551615"

definition LONG_MAX :: nat where
  "LONG_MAX = 9223372036854775807"

definition strtoul :: "string \<Rightarrow> 64 word \<times> string \<times> bool" where
  "strtoul nptr =
     (case strto_subject nptr of
        None \<Rightarrow> (0, nptr, False)
      | Some (negative, v, endPtr) \<Rightarrow>
          if ULONG_MAX < v then (of_nat ULONG_MAX, endPtr, True)
          else if negative then (- of_nat v, endPtr, False)
          else (of_nat v, endPtr, False))"

definition strtol :: "string \<Rightarrow> 64 word \<times> string \<times> bool" where
  "strtol nptr =
     (case strto_subject nptr of
        None \<Rightarrow> (0, nptr, False)
      | Some (negative, v, endPtr) \<Rightarrow>
          if negative
          then (if LONG_MAX + 1 < v then (- of_nat (LONG_MAX + 1), endPtr, True)
                else (- of_nat v, endPtr, False))
          else (if LONG_MAX < v then (of_nat LONG_MAX, endPtr, True)
                else (of_nat v, endPtr, False)))"

text \<open>
  \<open>GetNonNegativeInt\<close>, \<open>GetInt\<close> and \<open>GetPositiveInt\<close> on a simple section. The
  \<open>size_t result\<close> is a 64-bit word, so \<open>result *= 1024\<close> wraps around; \<open>GetInt\<close>
  returns the same bits as an \<open>ssize_t\<close> (read it with \<open>sint\<close>). \<open>*endPtr\<close> is the
  first character not read, or the terminating \<open>'\0'\<close>.
\<close>

definition GetNonNegativeInt :: "TokenList_t \<Rightarrow> failure + 64 word" where
  "GetNonNegativeInt sectionPtr =
     andThen (Contents_at sectionPtr 0) (\<lambda>valueTokenPtr.
       case strtoul (tokText valueTokenPtr) of
         (result, endPtr, errno) \<Rightarrow>
           if errno
           then Inl (Exception_t (''Value must be an integer between 0 and ''
                       @ ''18446744073709551615'' @ '', with an optional 'K' suffix.''))
           else Inr (if char_at endPtr 0 = CHR ''K'' then result * 1024 else result))"

definition GetInt :: "TokenList_t \<Rightarrow> failure + 64 word" where
  "GetInt sectionPtr =
     andThen (Contents_at sectionPtr 0) (\<lambda>valueTokenPtr.
       case strtol (tokText valueTokenPtr) of
         (result, endPtr, errno) \<Rightarrow>
           if errno
           then Inl (Exception_t (''Value must be an integer between ''
                       @ ''-9223372036854775808'' @ '' and '' @ ''9223372036854775807''
                       @ '', with an optional 'K' suffix.''))
           else Inr (if char_at endPtr 0 = CHR ''K'' then result * 1024 else result))"

definition GetPositiveInt :: "TokenList_t \<Rightarrow> failure + 64 word" where
  "GetPositiveInt sectionPtr =
     andThen (GetNonNegativeInt sectionPtr) (\<lambda>result.
       if result = 0
       then Inl (Exception_t (''Value must be an integer between 1 and ''
                   @ ''18446744073709551615'' @ '', with an optional 'K' suffix.''))
       else Inr result)"

section \<open>The model of components, executables, apps and systems\<close>

datatype EndPointType_t = INTERNAL | EXTERNAL_USER | EXTERNAL_APP

text \<open>
  \<open>model::Binding_t\<close>. \<open>bindingParseTreePtr\<close> says whether the binding points to a
  parse-tree object (\<open>BindToRootService\<close> constructs its binding with \<open>NULL\<close>).
\<close>

record Binding_t =
  bindingParseTreePtr :: bool
  clientType :: EndPointType_t
  clientAgentName :: string
  clientIfName :: string
  serverType :: EndPointType_t
  serverAgentName :: string
  serverIfName :: string

record ApiClientInterface_t =
  internalName :: string
  optional :: bool

record ApiClientInterfaceInstance_t =
  ifInstanceName :: string
  ifPtr :: ApiClientInterface_t
  bindingPtr :: "Binding_t option"
  externMarkPtr :: "Token_t option"

text \<open>
  A component, with what the generator reads of it: its bundled files and directories,
  whether it has C or C++ code or Java code, and the path of its library (its
  \<open>target::LinuxComponentInfo_t\<close>).
\<close>

record Component_t =
  componentName :: string
  componentBundledFiles :: "FileSystemObject_t list"
  componentBundledDirs :: "FileSystemObject_t list"
  HasCOrCppCode :: bool
  HasJavaCode :: bool
  componentLib :: string

record ComponentInstance_t =
  componentPtr :: Component_t
  clientApis :: "ApiClientInterfaceInstance_t list"

record Exe_t =
  exeName :: string
  exePath :: string
  componentInstances :: "ComponentInstance_t list"

text \<open>
  An app. \<open>executables\<close> is a \<open>std::map\<close> from name to executable, kept as the list of
  its entries in the order the loops visit them; \<open>externServerInterfaces\<close> is the list of
  the names (keys) of that map. The settings \<open>watchdogAction\<close> and \<open>watchdogTimeout\<close>
  are of classes that are not among the sources: a setting is unset (\<open>None\<close>,
  \<open>IsSet()\<close> false) until a value is assigned to it, and an assignment stores the value.
  \<open>ConfigFilePath\<close> stands for the result of the method of that name.
\<close>

record App_t =
  appName :: string
  appVersion :: string
  appWorkingDir :: string
  appDefFilePath :: string
  ConfigFilePath :: string
  appBundledFiles :: "FileSystemObject_t list"
  appBundledDirs :: "FileSystemObject_t list"
  appBundledBinaries :: "FileSystemObject_t list"
  appComponents :: "Component_t list"
  executables :: "(string \<times> Exe_t) list"
  externServerInterfaces :: "string list"
  watchdogAction :: "string option"
  watchdogTimeout :: "64 word option"

record System_t =
  apps :: "(string \<times> App_t) list"

section \<open>The modeller: watchdog settings\<close>

text \<open>
  \<open>SetWatchdogAction\<close> and \<open>SetWatchdogTimeout\<close> change the app they are given. The
  model returns the exception, if one was thrown, together with the app as the call left
  it. \<open>sectionPtr->Text()\<close> is the text of the section's first content token.
\<close>

definition SetWatchdogAction :: "App_t \<Rightarrow> TokenList_t \<Rightarrow> failure option \<times> App_t" where
  "SetWatchdogAction appPtr sectionPtr =
     (if watchdogAction appPtr \<noteq> None
      then (Some (Exception_t ''Only one watchdogAction section allowed.''), appPtr)
      else (case Contents_at sectionPtr 0 of
              Inl e \<Rightarrow> (Some e, appPtr)
            | Inr tokenPtr \<Rightarrow> (None, appPtr\<lparr>watchdogAction := Some (tokText tokenPtr)\<rparr>)))"

definition SetWatchdogTimeout :: "App_t \<Rightarrow> TokenList_t \<Rightarrow> failure option \<times> App_t" where
  "SetWatchdogTimeout appPtr sectionPtr =
     (if watchdogTimeout appPtr \<noteq> None
      then (Some (Exception_t ''Only one watchdogTimeout section allowed.''), appPtr)
      else (case Contents_at sectionPtr 0 of
              Inl e \<Rightarrow> (Some e, appPtr)
            | Inr tokenPtr \<Rightarrow>
                if tokType tokenPtr = NAME
                then (None, appPtr\<lparr>watchdogTimeout := Some (- 1)\<rparr>)
                else (case GetInt sectionPtr of
                        Inl e \<Rightarrow> (Some e, appPtr)
                      | Inr v \<Rightarrow> (None, appPtr\<lparr>watchdogTimeout := Some v\<rparr>))))"

section \<open>The binding resolver\<close>

definition BindToRootService ::
  "App_t \<Rightarrow> ApiClientInterfaceInstance_t \<Rightarrow> string \<Rightarrow> ApiClientInterfaceInstance_t" where
  "BindToRootService appPtr ifInstancePtr serviceName =
     ifInstancePtr\<lparr>bindingPtr := Some
       \<lparr>bindingParseTreePtr = False,
        clientType = INTERNAL,
        clientAgentName = appName appPtr,
        clientIfName = ifInstanceName ifInstancePtr,
        serverType = EXTERNAL_USER,
        serverAgentName = ''root'',
        serverIfName = serviceName\<rparr>\<rparr>"

text \<open>
  \<open>CheckBindingTarget\<close> throws through the binding's parse-tree pointer; with a null
  pointer that is undefined.
\<close>

definition CheckBindingTarget :: "System_t \<Rightarrow> Binding_t \<Rightarrow> failure + unit" where
  "CheckBindingTarget systemPtr binding =
     (if serverType binding = EXTERNAL_APP
      then (case map_of (apps systemPtr) (serverAgentName binding) of
              None \<Rightarrow>
                if bindingParseTreePtr binding
                then Inl (Exception_t (''Binding to non-existent server app '' @ [CHR 0x27]
                            @ serverAgentName binding @ [CHR 0x27] @ ''.''))
                else Inl UndefinedBehaviour
            | Some appPtr \<Rightarrow>
                if serverIfName binding \<notin> set (externServerInterfaces appPtr)
                then (if bindingParseTreePtr binding
                      then Inl (Exception_t (''Binding to non-existent server interface ''
                                  @ [CHR 0x27] @ serverIfName binding @ [CHR 0x27] @ '' on ''
                                  @ ''app '' @ [CHR 0x27] @ serverAgentName binding
                                  @ [CHR 0x27] @ ''.''))
                      else Inl UndefinedBehaviour)
                else Inr ())
      else Inr ())"

text \<open>
  The body of the innermost loop of \<open>EnsureClientInterfacesBound\<close>, for one client
  interface instance: the instance as the body leaves it, or the exception.
\<close>

definition EnsureClientInterfacesBound_body ::
  "System_t \<Rightarrow> App_t \<Rightarrow> Exe_t \<Rightarrow> ComponentInstance_t \<Rightarrow> ApiClientInterfaceInstance_t
     \<Rightarrow> failure + ApiClientInterfaceInstance_t" where
  "EnsureClientInterfacesBound_body systemPtr appPtr exePtr componentInstancePtr ifInstancePtr =
     (case bindingPtr ifInstancePtr of
        None \<Rightarrow>
          if \<not> optional (ifPtr ifInstancePtr)
          then (if internalName (ifPtr ifInstancePtr) = ''le_cfg''
                then Inr (BindToRootService appPtr ifInstancePtr ''le_cfg'')
                else if internalName (ifPtr ifInstancePtr) = ''le_wdog''
                then Inr (BindToRootService appPtr ifInstancePtr ''le_wdog'')
                else if externMarkPtr ifInstancePtr \<noteq> None
                then Inl (Exception_t (''Client interface '' @ [CHR 0x27]
                            @ appName appPtr @ ''.''
                            @ ifInstanceName ifInstancePtr @ [CHR 0x27] @ '' (aka ''
                            @ [CHR 0x27]
                            @ appName appPtr @ ''.''
                            @ exeName exePtr @ ''.''
                            @ componentName (componentPtr componentInstancePtr)
                            @ ''.''
                            @ internalName (ifPtr ifInstancePtr)
                            @ [CHR 0x27] @ '') is not bound to anything.''))
                else Inl (Exception_t (''Client interface '' @ [CHR 0x27]
                            @ appName appPtr @ ''.''
                            @ ifInstanceName ifInstancePtr
                            @ [CHR 0x27] @ '' is not bound to anything.'')))
          else Inr ifInstancePtr
      | Some binding \<Rightarrow>
          andThen (CheckBindingTarget systemPtr binding) (\<lambda>_. Inr ifInstancePtr))"

definition EnsureClientInterfacesBound_exe ::
  "System_t \<Rightarrow> App_t \<Rightarrow> Exe_t \<Rightarrow> failure + Exe_t" where
  "EnsureClientInterfacesBound_exe systemPtr appPtr exePtr =
     andThen
       (forEach (\<lambda>componentInstancePtr.
          andThen
            (forEach (EnsureClientInterfacesBound_body systemPtr appPtr exePtr componentInstancePtr)
               (clientApis componentInstancePtr))
            (\<lambda>ifs. Inr (componentInstancePtr\<lparr>clientApis := ifs\<rparr>)))
          (componentInstances exePtr))
       (\<lambda>cis. Inr (exePtr\<lparr>componentInstances := cis\<rparr>))"

definition EnsureClientInterfacesBound_app :: "System_t \<Rightarrow> App_t \<Rightarrow> failure + App_t" where
  "EnsureClientInterfacesBound_app systemPtr appPtr =
     andThen
       (forEach (\<lambda>mapItem.
          andThen (EnsureClientInterfacesBound_exe systemPtr appPtr (snd mapItem))
            (\<lambda>exePtr. Inr (fst mapItem, exePtr)))
          (executables appPtr))
       (\<lambda>exes. Inr (appPtr\<lparr>executables := exes\<rparr>))"

definition EnsureClientInterfacesBound :: "System_t \<Rightarrow> failure + System_t" where
  "EnsureClientInterfacesBound systemPtr =
     andThen
       (forEach (\<lambda>appMapEntry.
          andThen (EnsureClientInterfacesBound_app systemPtr (snd appMapEntry))
            (\<lambda>appPtr. Inr (fst appMapEntry, appPtr)))
          (apps systemPtr))
       (\<lambda>as. Inr (systemPtr\<lparr>apps := as\<rparr>))"

text \<open>The body of the innermost loop of \<open>EnsureClientInterfacesSatisfied\<close>.\<close>

definition EnsureClientInterfacesSatisfied_body ::
  "App_t \<Rightarrow> Exe_t \<Rightarrow> ComponentInstance_t \<Rightarrow> ApiClientInterfaceInstance_t
     \<Rightarrow> failure + ApiClientInterfaceInstance_t" where
  "EnsureClientInterfacesSatisfied_body appPtr exePtr componentInstancePtr ifInstancePtr =
     (if bindingPtr ifInstancePtr = None \<and> externMarkPtr ifInstancePtr = None
      then (if \<not> optional (ifPtr ifInstancePtr)
            then (if internalName (ifPtr ifInstancePtr) = ''le_cfg''
                  then Inr (BindToRootService appPtr ifInstancePtr ''le_cfg'')
                  else if internalName (ifPtr ifInstancePtr) = ''le_wdog''
                  then Inr (BindToRootService appPtr ifInstancePtr ''le_wdog'')
                  else Inl (Exception_t (''Client interface '' @ [CHR 0x27]
                              @ internalName (ifPtr ifInstancePtr)
                              @ [CHR 0x27] @ '' of component '' @ [CHR 0x27]
                              @ componentName (componentPtr componentInstancePtr)
                              @ [CHR 0x27] @ '' in executable '' @ [CHR 0x27]
                              @ exeName exePtr
                              @ [CHR 0x27] @ '' is unsatisfied. It must either be declared''
                              @ '' an external (inter-app) required interface''
                              @ '' (in a '' @ [CHR 0x22] @ ''requires: api:'' @ [CHR 0x22]
                              @ '' section in the .adef)''
                              @ '' or be bound to a server side interface''
                              @ '' (in the '' @ [CHR 0x22] @ ''bindings:'' @ [CHR 0x22]
                              @ '' section of the .adef).'')))
            else Inr ifInstancePtr)
      else Inr ifInstancePtr)"

definition EnsureClientInterfacesSatisfied :: "App_t \<Rightarrow> failure + App_t" where
  "EnsureClientInterfacesSatisfied appPtr =
     andThen
       (forEach (\<lambda>mapItem.
          andThen
            (forEach (\<lambda>componentInstancePtr.
               andThen
                 (forEach
                    (EnsureClientInterfacesSatisfied_body appPtr (snd mapItem)
                       componentInstancePtr)
                    (clientApis componentInstancePtr))
                 (\<lambda>ifs. Inr (componentInstancePtr\<lparr>clientApis := ifs\<rparr>)))
               (componentInstances (snd mapItem)))
            (\<lambda>cis. Inr (fst mapItem, (snd mapItem)\<lparr>componentInstances := cis\<rparr>)))
          (executables appPtr))
       (\<lambda>exes. Inr (appPtr\<lparr>executables := exes\<rparr>))"

section \<open>The parser\<close>

text \<open>
  Modelled from the spec: \<open>Lexer_t\<close>, of which only the class declaration is among the
  sources. Spec 4.1: \<open>IsMatch(tokenType)\<close> peeks whether the upcoming text could be a
  token of the type without consuming input; \<open>Pull(tokenType)\<close> consumes and returns a
  token of the expected type or fails with a syntax error. The state of the lexer is the
  list of the tokens still to come, each of one type; the empty list is the end of the
  file. The message of the syntax error is not given by the spec.
\<close>

type_synonym Lexer_t = "Token_t list"

definition IsMatch :: "Lexer_t \<Rightarrow> Type_t \<Rightarrow> bool" where
  "IsMatch lexer ty = (case lexer of [] \<Rightarrow> ty = END_OF_FILE | t # _ \<Rightarrow> tokType t = ty)"

definition Pull :: "Lexer_t \<Rightarrow> Type_t \<Rightarrow> failure + (Token_t \<times> Lexer_t)" where
  "Pull lexer ty =
     (case lexer of
        [] \<Rightarrow> if ty = END_OF_FILE
              then Inr (\<lparr>tokType = END_OF_FILE, tokText = [], tokLine = 0, tokColumn = 0\<rparr>, [])
              else Inl (Exception_t ''Unexpected end-of-file.'')
      | t # rest \<Rightarrow> if tokType t = ty then Inr (t, rest)
                    else Inl (Exception_t ''Unexpected token.''))"

function SkipWhitespaceAndComments :: "Lexer_t \<Rightarrow> failure + Lexer_t" where
  "SkipWhitespaceAndComments lexer =
     (if IsMatch lexer WHITESPACE
      then (case Pull lexer WHITESPACE of
              Inl e \<Rightarrow> Inl e
            | Inr pulled \<Rightarrow> SkipWhitespaceAndComments (snd pulled))
      else if IsMatch lexer COMMENT
      then (case Pull lexer COMMENT of
              Inl e \<Rightarrow> Inl e
            | Inr pulled \<Rightarrow> SkipWhitespaceAndComments (snd pulled))
      else Inr lexer)"
  by pat_completeness auto
termination
  by (relation "measure length")
     (auto simp: IsMatch_def Pull_def split: list.splits if_splits)

definition ParseSimpleSection ::
  "Lexer_t \<Rightarrow> Token_t \<Rightarrow> Type_t \<Rightarrow> failure + (TokenList_t \<times> Lexer_t)" where
  "ParseSimpleSection lexer sectionNameTokenPtr tokenType =
     andThen (SkipWhitespaceAndComments lexer) (\<lambda>lexer1.
     andThen (Pull lexer1 COLON) (\<lambda>colon.
     andThen (SkipWhitespaceAndComments (snd colon)) (\<lambda>lexer3.
     andThen (Pull lexer3 tokenType) (\<lambda>pulled.
       Inr (AddContent (fst pulled) (CreateTokenList sectionNameTokenPtr), snd pulled)))))"

text \<open>
  \<open>numberStream >> number\<close> on a text that starts with a decimal digit: the value of
  the leading decimal digits. \<open>ParsePriority\<close> reads at most two digits this way, so the
  \<open>unsigned int\<close> cannot overflow.
\<close>

definition read_unsigned :: "string \<Rightarrow> nat" where
  "read_unsigned numberString = fst (scan_digits 10 numberString 0)"

definition ParsePriority :: "Lexer_t \<Rightarrow> Token_t \<Rightarrow> failure + (TokenList_t \<times> Lexer_t)" where
  "ParsePriority lexer sectionNameTokenPtr =
     andThen (ParseSimpleSection lexer sectionNameTokenPtr NAME) (\<lambda>parsed.
       let sectionPtr = fst parsed;
           content = tokText (lastTokenPtr sectionPtr)
       in if content \<noteq> ''idle'' \<and> content \<noteq> ''low'' \<and> content \<noteq> ''medium''
             \<and> content \<noteq> ''high''
          then (if char_at content 0 = CHR ''r''
                   \<and> char_at content 1 = CHR ''t''
                   \<and> isdigit (char_at content 2)
                   \<and> (char_at content 3 = CHR 0x00
                        \<or> (isdigit (char_at content 3) \<and> char_at content 4 = CHR 0x00))
                then (let numberString = drop 2 content;
                          number = read_unsigned numberString
                      in if number < 1 \<or> 32 < number
                         then Inl (Exception_t (''Real-time priority level '' @ content
                                     @ '' out of range.''
                                     @ ''  Must be in the range 'rt1' through 'rt32'.''))
                         else Inr parsed)
                else Inl (Exception_t (''Invalid priority '' @ [CHR 0x27] @ content
                            @ [CHR 0x27] @ ''.'')))
          else Inr parsed)"


section \<open>The build-script generator\<close>

text \<open>
  The generator writes a ninja script to a stream. The model keeps the build statements
  written, in order: the output of a statement, its rule, its explicit inputs, its
  implicit dependencies (after \<open>|\<close>), its order-only dependencies (after \<open>||\<close>) and
  the variables bound under it. Rules and comments, and the layout of the text, are not
  modelled.
\<close>

record BuildStatement =
  stmtOutput :: string
  stmtRule :: string
  stmtInputs :: "string list"
  stmtImplicit :: "string list"
  stmtOrderOnly :: "string list"
  stmtVariables :: "(string \<times> string) list"

type_synonym Script = "BuildStatement list"

record BuildParams_t =
  target :: string
  outputDir :: string
  workingDir :: string
  codeGenOnly :: bool
  binPack :: bool

definition PermissionsToModeFlags :: "Permissions_t \<Rightarrow> string" where
  "PermissionsToModeFlags perms =
     (let executableFlag = (if executable perms then ''+x'' else ''-x'');
          flags0 = ''u+rw'' @ executableFlag @ '',g+r'' @ executableFlag
                   @ '',o'' @ executableFlag;
          flags1 = flags0 @ (if readable perms then ''+r'' else ''-r'')
      in flags1 @ (if writeable perms then ''+w'' else ''-w''))"

text \<open>
  Modelled from the spec: \<open>model::FileSystemObjectSet_t\<close>, a set of file system objects
  whose ordering is not among the sources. Spec 4.5 has the conflict check compare, "for
  every destination path, all file objects mapped to it", and the note on
  \<open>GenerateStagingBundleBuildStatements\<close> calls the elements "the bundled objects
  (destination paths)": two objects are the same element of the set when their
  destination paths are equal. The set is the list of its elements in increasing order of
  destination path, the order in which a loop over it visits them; \<open>insert\<close> leaves the
  set as it is when it has an element with that destination path.
\<close>

type_synonym FileSystemObjectSet_t = "FileSystemObject_t list"

definition set_find :: "FileSystemObject_t \<Rightarrow> FileSystemObjectSet_t \<Rightarrow> FileSystemObject_t option" where
  "set_find obj bundledFiles = find (\<lambda>g. destPath g = destPath obj) bundledFiles"

definition set_insert :: "FileSystemObject_t \<Rightarrow> FileSystemObjectSet_t \<Rightarrow> FileSystemObjectSet_t" where
  "set_insert obj bundledFiles =
     (if set_find obj bundledFiles = None then insort_key destPath obj bundledFiles
      else bundledFiles)"

definition BundleFileStatement :: "string \<Rightarrow> string \<Rightarrow> Permissions_t \<Rightarrow> BuildStatement" where
  "BundleFileStatement dest src perms =
     \<lparr>stmtOutput = dest, stmtRule = ''BundleFile'', stmtInputs = [src], stmtImplicit = [],
      stmtOrderOnly = [], stmtVariables = [(''modeFlags'', PermissionsToModeFlags perms)]\<rparr>"

text \<open>
  \<open>GenerateFileBundleBuildStatement(fileObject, bundledFiles)\<close>, on the script and the
  set. (The \<open>containingDir\<close> it computes first is not used.)
\<close>

definition GenerateFileBundleBuildStatement ::
  "FileSystemObject_t \<Rightarrow> Script \<times> FileSystemObjectSet_t
     \<Rightarrow> failure + (Script \<times> FileSystemObjectSet_t)" where
  "GenerateFileBundleBuildStatement fileObject st =
     (case set_find fileObject (snd st) of
        None \<Rightarrow>
          Inr (fst st @ [BundleFileStatement (destPath fileObject) (srcPath fileObject)
                           (permissions fileObject)],
               set_insert fileObject (snd st))
      | Some bundledFile \<Rightarrow>
          if srcPath fileObject \<noteq> srcPath bundledFile
          then Inl (Exception_t (''error: Cannot bundle file '' @ [CHR 0x27]
                      @ srcPath fileObject @ [CHR 0x27] @ '' with destination '' @ [CHR 0x27]
                      @ destPath fileObject @ [CHR 0x27] @ '' since it''
                      @ '' conflicts with existing bundled file '' @ [CHR 0x27]
                      @ srcPath bundledFile @ [CHR 0x27] @ ''.''))
          else if permissions fileObject \<noteq> permissions bundledFile
          then Inl (Exception_t (''error: Cannot bundle file '' @ [CHR 0x27]
                      @ srcPath fileObject @ [CHR 0x27] @ ''.  It is already bundled with''
                      @ '' different permissions.''))
          else Inr st)"

text \<open>
  The file system the generator walks: what is found under a directory entry. The walk
  of \<open>GenerateDirBundleBuildStatements\<close> follows the tree of the directory it was given.
\<close>

datatype FsNode = FsFile | FsDir "(string \<times> FsNode) list" | FsOther

fun GenerateDirBundleBuildStatements_entries ::
  "Externals \<Rightarrow> (string \<times> FsNode) list \<Rightarrow> FileSystemObject_t
     \<Rightarrow> Script \<times> FileSystemObjectSet_t \<Rightarrow> failure + (Script \<times> FileSystemObjectSet_t)" where
  "GenerateDirBundleBuildStatements_entries ext [] fileObject st = Inr st"
| "GenerateDirBundleBuildStatements_entries ext ((d_name, node) # entries) fileObject st =
     (if d_name \<noteq> ''.'' \<and> d_name \<noteq> ''..''
      then (case (case node of
                    FsDir sub \<Rightarrow>
                      GenerateDirBundleBuildStatements_entries ext sub
                        \<lparr>srcPath = Combine ext (srcPath fileObject) d_name,
                         destPath = Combine ext (destPath fileObject) d_name,
                         permissions = permissions fileObject\<rparr> st
                  | FsFile \<Rightarrow>
                      GenerateFileBundleBuildStatement
                        \<lparr>srcPath = Combine ext (srcPath fileObject) d_name,
                         destPath = Combine ext (destPath fileObject) d_name,
                         permissions = permissions fileObject\<rparr> st
                  | FsOther \<Rightarrow>
                      Inl (Exception_t
                            (''File system object is not a directory or a file: ''
                             @ [CHR 0x27] @ Combine ext (srcPath fileObject) d_name
                             @ [CHR 0x27] @ ''.''))) of
              Inl e \<Rightarrow> Inl e
            | Inr st' \<Rightarrow> GenerateDirBundleBuildStatements_entries ext entries fileObject st')
      else GenerateDirBundleBuildStatements_entries ext entries fileObject st)"

text \<open>
  \<open>GenerateDirBundleBuildStatements(fileObject, bundledFiles)\<close>. \<open>fs\<close> gives what is
  at a path of the build host (\<open>None\<close>: nothing, \<open>opendir\<close> fails with ENOENT).
\<close>

definition GenerateDirBundleBuildStatements ::
  "Externals \<Rightarrow> (string \<Rightarrow> FsNode option) \<Rightarrow> FileSystemObject_t
     \<Rightarrow> Script \<times> FileSystemObjectSet_t \<Rightarrow> failure + (Script \<times> FileSystemObjectSet_t)" where
  "GenerateDirBundleBuildStatements ext fs fileObject st =
     (case fs (srcPath fileObject) of
        None \<Rightarrow> Inl (Exception_t (''Can't access file or directory '' @ [CHR 0x27]
                       @ srcPath fileObject @ [CHR 0x27]
                       @ '' (No such file or directory)''))
      | Some (FsDir entries) \<Rightarrow>
          GenerateDirBundleBuildStatements_entries ext entries fileObject st
      | Some _ \<Rightarrow> Inl (Exception_t (''Not a directory: '' @ [CHR 0x27]
                         @ srcPath fileObject @ [CHR 0x27] @ ''.'')))"

text \<open>
  The overloads that take the app: the destination is put under the app's staging area,
  in \<open>writeable\<close> or \<open>read-only\<close>. \<open>PathAppend\<close> is \<open>path::Path_t::operator+=\<close>.
\<close>

definition GenerateFileBundleBuildStatement_app ::
  "Externals \<Rightarrow> App_t \<Rightarrow> FileSystemObject_t
     \<Rightarrow> Script \<times> FileSystemObjectSet_t \<Rightarrow> failure + (Script \<times> FileSystemObjectSet_t)" where
  "GenerateFileBundleBuildStatement_app ext appPtr fileSystemObjPtr st =
     (let destPath0 = ''$builddir'';
          destPath1 = PathAppend ext destPath0 (appWorkingDir appPtr);
          destPath2 = PathAppend ext destPath1 ''staging'';
          destPath3 = (if writeable (permissions fileSystemObjPtr)
                       then PathAppend ext destPath2 ''writeable''
                       else PathAppend ext destPath2 ''read-only'');
          destPath4 = PathAppend ext destPath3 (destPath fileSystemObjPtr)
      in GenerateFileBundleBuildStatement
           \<lparr>srcPath = srcPath fileSystemObjPtr, destPath = destPath4,
            permissions = permissions fileSystemObjPtr\<rparr> st)"

definition GenerateDirBundleBuildStatements_app ::
  "Externals \<Rightarrow> (string \<Rightarrow> FsNode option) \<Rightarrow> App_t \<Rightarrow> FileSystemObject_t
     \<Rightarrow> Script \<times> FileSystemObjectSet_t \<Rightarrow> failure + (Script \<times> FileSystemObjectSet_t)" where
  "GenerateDirBundleBuildStatements_app ext fs appPtr fileSystemObjPtr st =
     (let destPath0 = ''$builddir'';
          destPath1 = PathAppend ext destPath0 (appWorkingDir appPtr);
          destPath2 = PathAppend ext destPath1 ''staging'';
          destPath3 = (if writeable (permissions fileSystemObjPtr)
                       then PathAppend ext destPath2 ''writeable''
                       else PathAppend ext destPath2 ''read-only'');
          destPath4 = PathAppend ext destPath3 (destPath fileSystemObjPtr)
      in GenerateDirBundleBuildStatements ext fs
           \<lparr>srcPath = srcPath fileSystemObjPtr, destPath = destPath4,
            permissions = permissions fileSystemObjPtr\<rparr> st)"

text \<open>
  \<open>GenerateStagingBundleBuildStatements\<close>: the part of its loop over the components for
  one component, the statement for one executable, and the function itself.
\<close>

definition GenerateStagingBundleBuildStatements_component ::
  "Externals \<Rightarrow> (string \<Rightarrow> FsNode option) \<Rightarrow> App_t \<Rightarrow> Component_t
     \<Rightarrow> Script \<times> FileSystemObjectSet_t \<Rightarrow> failure + (Script \<times> FileSystemObjectSet_t)" where
  "GenerateStagingBundleBuildStatements_component ext fs appPtr compPtr st =
     andThen (foldEach (GenerateFileBundleBuildStatement_app ext appPtr)
                (componentBundledFiles compPtr) st) (\<lambda>st1.
     andThen (foldEach (GenerateDirBundleBuildStatements_app ext fs appPtr)
                (componentBundledDirs compPtr) st1) (\<lambda>st2.
       if HasCOrCppCode compPtr \<or> HasJavaCode compPtr
       then (let dest = ''$builddir/'' @ appWorkingDir appPtr
                        @ ''/staging/read-only/lib/''
                        @ GetLastNode ext (componentLib compPtr);
                 lib = componentLib compPtr
             in Inr (fst st2 @ [BundleFileStatement dest lib
                                 \<lparr>readable = True, writeable = False, executable = True\<rparr>],
                     set_insert \<lparr>srcPath = lib, destPath = dest,
                                 permissions = \<lparr>readable = True, writeable = False,
                                                executable = HasCOrCppCode compPtr\<rparr>\<rparr>
                       (snd st2)))
       else Inr st2))"

definition StagedExePath :: "App_t \<Rightarrow> Exe_t \<Rightarrow> string" where
  "StagedExePath appPtr exePtr =
     ''$builddir/'' @ appWorkingDir appPtr @ ''/staging/read-only/bin/'' @ exeName exePtr"

definition GenerateStagingBundleBuildStatements ::
  "Externals \<Rightarrow> (string \<Rightarrow> FsNode option) \<Rightarrow> App_t
     \<Rightarrow> Script \<times> FileSystemObjectSet_t \<Rightarrow> failure + (Script \<times> FileSystemObjectSet_t)" where
  "GenerateStagingBundleBuildStatements ext fs appPtr st =
     andThen (foldEach (GenerateFileBundleBuildStatement_app ext appPtr)
                (appBundledFiles appPtr) st) (\<lambda>st1.
     andThen (foldEach (GenerateDirBundleBuildStatements_app ext fs appPtr)
                (appBundledDirs appPtr) st1) (\<lambda>st2.
     andThen (foldEach (GenerateFileBundleBuildStatement_app ext appPtr)
                (appBundledBinaries appPtr) st2) (\<lambda>st3.
     andThen (foldEach (GenerateStagingBundleBuildStatements_component ext fs appPtr)
                (appComponents appPtr) st3) (\<lambda>st4.
       Inr (fst st4
              @ map (\<lambda>exeMapPtr.
                       BundleFileStatement (StagedExePath appPtr (snd exeMapPtr))
                         (''$builddir/'' @ exePath (snd exeMapPtr))
                         \<lparr>readable = True, writeable = False, executable = True\<rparr>)
                  (executables appPtr),
            snd st4)))))"

text \<open>
  \<open>GenerateAppBundleBuildStatement\<close>. The app gets a fresh
  \<open>target::FileSystemAppInfo_t\<close>, whose set of bundled files starts empty; the function
  returns the script and that set. \<open>apiFiles\<close> are the paths of the .api files of
  \<open>model::ApiFile_t::GetApiFileMap()\<close>, in the order of the map.
\<close>

definition InfoPropertiesPath :: "Externals \<Rightarrow> App_t \<Rightarrow> string" where
  "InfoPropertiesPath ext appPtr =
     (''$builddir/'' @ Combine ext (appWorkingDir appPtr) ''staging'') @ ''/info.properties''"

definition MakeAppInfoPropertiesStatement ::
  "Externals \<Rightarrow> App_t \<Rightarrow> FileSystemObjectSet_t \<Rightarrow> BuildStatement" where
  "MakeAppInfoPropertiesStatement ext appPtr allBundledFiles =
     \<lparr>stmtOutput = InfoPropertiesPath ext appPtr,
      stmtRule = ''MakeAppInfoProperties'',
      stmtInputs = [],
      stmtImplicit =
        map destPath allBundledFiles
        @ map (\<lambda>mapItem. StagedExePath appPtr (snd mapItem)) (executables appPtr)
        @ [''$builddir/'' @ ConfigFilePath appPtr],
      stmtOrderOnly = [],
      stmtVariables = [(''name'', appName appPtr), (''version'', appVersion appPtr),
                       (''workingDir'', ''$builddir/'' @ appWorkingDir appPtr)]\<rparr>"

definition PackAppStatement :: "Externals \<Rightarrow> App_t \<Rightarrow> string \<Rightarrow> BuildStatement" where
  "PackAppStatement ext appPtr outDir =
     \<lparr>stmtOutput = Combine ext outDir (appName appPtr) @ ''.$target.update'',
      stmtRule = ''PackApp'',
      stmtInputs = [InfoPropertiesPath ext appPtr],
      stmtImplicit = [],
      stmtOrderOnly = [],
      stmtVariables = [(''name'', appName appPtr), (''adefPath'', appDefFilePath appPtr),
                       (''version'', appVersion appPtr),
                       (''workingDir'', ''$builddir/'' @ appWorkingDir appPtr)]\<rparr>"

definition BinPackStatements :: "Externals \<Rightarrow> string list \<Rightarrow> App_t \<Rightarrow> string \<Rightarrow> Script" where
  "BinPackStatements ext apiFiles appPtr outDir =
     (let appPackDir = ''$builddir/'' @ appName appPtr;
          interfacesDir = appPackDir @ ''/interfaces''
      in map (\<lambda>apiFile.
                \<lparr>stmtOutput = interfacesDir @ ''/'' @ GetLastNode ext apiFile,
                 stmtRule = ''CopyFile'', stmtInputs = [apiFile], stmtImplicit = [],
                 stmtOrderOnly = [], stmtVariables = []\<rparr>) apiFiles
         @ [\<lparr>stmtOutput = Combine ext outDir (appName appPtr) @ ''.$target.app'',
             stmtRule = ''BinPackApp'',
             stmtInputs = [InfoPropertiesPath ext appPtr],
             stmtImplicit = [],
             stmtOrderOnly = map (\<lambda>apiFile. interfacesDir @ ''/'' @ GetLastNode ext apiFile)
                               apiFiles,
             stmtVariables = [(''adefPath'', appDefFilePath appPtr),
                              (''stagingDir'',
                               ''$builddir/'' @ appWorkingDir appPtr @ ''/staging''),
                              (''workingDir'', appPackDir)]\<rparr>])"

definition GenerateAppBundleBuildStatement ::
  "Externals \<Rightarrow> (string \<Rightarrow> FsNode option) \<Rightarrow> BuildParams_t \<Rightarrow> string list \<Rightarrow> App_t
     \<Rightarrow> string \<Rightarrow> Script \<Rightarrow> failure + (Script \<times> FileSystemObjectSet_t)" where
  "GenerateAppBundleBuildStatement ext fs buildParams apiFiles appPtr outDir script =
     andThen (GenerateStagingBundleBuildStatements ext fs appPtr (script, [])) (\<lambda>st.
       Inr (fst st
              @ [MakeAppInfoPropertiesStatement ext appPtr (snd st)]
              @ [PackAppStatement ext appPtr outDir]
              @ (if binPack buildParams then BinPackStatements ext apiFiles appPtr outDir
                 else []),
            snd st))"

text \<open>
  Modelled from the spec: the driver that runs the stages of the pipeline (the tool's
  main function and the app modeller are not among the sources). Spec 5 and 7: the stages
  run one after the other, model before generate; the run aborts on the first error and
  no partial build plan is emitted. Here the modelling stage builds the required files
  and directories of an app from their items; \<open>generate\<close> is the generator stage, which
  writes the script. The result is the exception, if any, and the script written.
\<close>

definition ModelThenGenerate ::
  "Externals \<Rightarrow> TokenList_t list \<Rightarrow> (FileSystemObject_t list \<Rightarrow> failure option \<times> Script)
     \<Rightarrow> failure option \<times> Script" where
  "ModelThenGenerate ext requiredItems generate =
     (case forEach (GetRequiredFileOrDir ext) requiredItems of
        Inl e \<Rightarrow> (Some e, [])
      | Inr requiredFiles \<Rightarrow> generate requiredFiles)"

section \<open>Notions used to state the properties of the parser\<close>

declare SkipWhitespaceAndComments.simps [simp del]

text \<open>A whitespace or comment token, which \<open>SkipWhitespaceAndComments\<close> throws away.\<close>

definition ignorable :: "Token_t \<Rightarrow> bool" where
  "ignorable t = (tokType t = WHITESPACE \<or> tokType t = COMMENT)"

text \<open>The number that a text of decimal digits writes.\<close>

definition decimal :: "string \<Rightarrow> nat" where
  "decimal ds = foldl (\<lambda>a c. a * 10 + (of_char c - 48)) 0 ds"

text \<open>
  The priority names of the form \<open>rtN\<close> as the specification describes them: \<open>rt\<close>,
  then a decimal number \<open>N\<close> of one or two digits with \<open>1 \<le> N \<le> 32\<close>, and nothing after
  the digits.
\<close>

definition IsRealTimePriority :: "string \<Rightarrow> bool" where
  "IsRealTimePriority content =
     (\<exists>ds. content = ''rt'' @ ds \<and> (length ds = 1 \<or> length ds = 2)
         \<and> list_all isdigit ds \<and> 1 \<le> decimal ds \<and> decimal ds \<le> 32)"

text \<open>The test of the inner \<open>if\<close> of \<open>ParsePriority\<close>, as the code writes it.\<close>

definition rt_shape :: "string \<Rightarrow> bool" where
  "rt_shape content =
     (char_at content 0 = CHR ''r''
      \<and> char_at content 1 = CHR ''t''
      \<and> isdigit (char_at content 2)
      \<and> (char_at content 3 = CHR 0x00
           \<or> (isdigit (char_at content 3) \<and> char_at content 4 = CHR 0x00)))"

section \<open>Notions used to state the properties of the binding resolver\<close>

text \<open>
  The client interface instance at a place of an app (executable \<open>e\<close>, component
  instance \<open>c\<close>, interface \<open>i\<close>, counted in the order of the loops) and of a system
  (app \<open>a\<close> first), and the places that exist.
\<close>

definition appClientApiAt :: "App_t \<Rightarrow> nat \<Rightarrow> nat \<Rightarrow> nat \<Rightarrow> ApiClientInterfaceInstance_t" where
  "appClientApiAt app e c i =
     clientApis (componentInstances (snd (executables app ! e)) ! c) ! i"

definition appClientApiIndex :: "App_t \<Rightarrow> nat \<Rightarrow> nat \<Rightarrow> nat \<Rightarrow> bool" where
  "appClientApiIndex app e c i =
     (e < length (executables app)
      \<and> c < length (componentInstances (snd (executables app ! e)))
      \<and> i < length (clientApis (componentInstances (snd (executables app ! e)) ! c)))"

definition clientApiAt :: "System_t \<Rightarrow> nat \<Rightarrow> nat \<Rightarrow> nat \<Rightarrow> nat \<Rightarrow> ApiClientInterfaceInstance_t" where
  "clientApiAt sys a e c i = appClientApiAt (snd (apps sys ! a)) e c i"

definition clientApiIndex :: "System_t \<Rightarrow> nat \<Rightarrow> nat \<Rightarrow> nat \<Rightarrow> nat \<Rightarrow> bool" where
  "clientApiIndex sys a e c i =
     (a < length (apps sys) \<and> appClientApiIndex (snd (apps sys ! a)) e c i)"

text \<open>
  The client interface instances of a system in the order in which the loops of
  \<open>EnsureClientInterfacesBound\<close> visit them, each with its app, executable and component
  instance; the body of the loops on such an entry; the entries it accepts (it throws
  nothing); and the exception of the first entry of a list on which a function throws.
  \<open>fullPath\<close> is the dotted path \<open>appName.exeName.componentName.interfaceName\<close> of
  an interface.
\<close>

fun firstError :: "('a \<Rightarrow> failure + 'b) \<Rightarrow> 'a list \<Rightarrow> failure option" where
  "firstError f [] = None"
| "firstError f (x # xs) = (case f x of Inl e \<Rightarrow> Some e | Inr _ \<Rightarrow> firstError f xs)"

definition errorOf :: "failure + 'a \<Rightarrow> failure option" where
  "errorOf r = (case r of Inl e \<Rightarrow> Some e | Inr _ \<Rightarrow> None)"

definition clientInterfaceInstances ::
  "System_t \<Rightarrow> (App_t \<times> Exe_t \<times> ComponentInstance_t \<times> ApiClientInterfaceInstance_t) list" where
  "clientInterfaceInstances systemPtr =
     concat (map (\<lambda>appMapEntry.
       map (Pair (snd appMapEntry))
         (concat (map (\<lambda>mapItem.
            map (Pair (snd mapItem))
              (concat (map (\<lambda>componentInstancePtr.
                 map (Pair componentInstancePtr) (clientApis componentInstancePtr))
                 (componentInstances (snd mapItem)))))
            (executables (snd appMapEntry)))))
       (apps systemPtr))"

definition EnsureClientInterfacesBound_at ::
  "System_t \<Rightarrow> App_t \<times> Exe_t \<times> ComponentInstance_t \<times> ApiClientInterfaceInstance_t
     \<Rightarrow> failure + ApiClientInterfaceInstance_t" where
  "EnsureClientInterfacesBound_at systemPtr q =
     (case q of (appPtr, exePtr, componentInstancePtr, ifInstancePtr) \<Rightarrow>
        EnsureClientInterfacesBound_body systemPtr appPtr exePtr componentInstancePtr
          ifInstancePtr)"

definition accepted :: "System_t \<Rightarrow> App_t \<times> Exe_t \<times> ComponentInstance_t \<times> ApiClientInterfaceInstance_t \<Rightarrow> bool" where
  "accepted systemPtr q = (errorOf (EnsureClientInterfacesBound_at systemPtr q) = None)"

definition fullPath ::
  "App_t \<Rightarrow> Exe_t \<Rightarrow> ComponentInstance_t \<Rightarrow> ApiClientInterfaceInstance_t \<Rightarrow> string" where
  "fullPath appPtr exePtr componentInstancePtr ifInstancePtr =
     appName appPtr @ ''.'' @ exeName exePtr @ ''.''
     @ componentName (componentPtr componentInstancePtr) @ ''.''
     @ internalName (ifPtr ifInstancePtr)"

section \<open>Notions used to state the properties of the generator\<close>



text \<open>
  One or more steps of the generator took script and set from \<open>st\<close> to \<open>st'\<close>: the
  script grew by BundleFile statements whose outputs are destinations of the new set, and
  no destination left the set.
\<close>

definition staged ::
  "Script \<times> FileSystemObjectSet_t \<Rightarrow> Script \<times> FileSystemObjectSet_t \<Rightarrow> bool" where
  "staged st st' =
     (\<exists>new. fst st' = fst st @ new
        \<and> (\<forall>s\<in>set new. stmtRule s = ''BundleFile''
              \<and> stmtOutput s \<in> destPath ` set (snd st'))
        \<and> destPath ` set (snd st) \<subseteq> destPath ` set (snd st'))"


section \<open>Concrete inputs for the closed instances\<close>

text \<open>
  An instance of the external helpers: no substitution, no quotes to strip, the last path
  node is what follows the last \<open>/\<close>, and two paths are joined with one \<open>/\<close> between
  them.
\<close>

definition joinPath :: "string \<Rightarrow> string \<Rightarrow> string" where
  "joinPath a b = (if b \<noteq> [] \<and> hd b = CHR ''/'' then a @ b else a @ ''/'' @ b)"

definition plainExternals :: Externals where
  "plainExternals =
     \<lparr>DoSubstitution = (\<lambda>s. s), Unquote = (\<lambda>s. s),
      GetLastNode = (\<lambda>s. rev (takeWhile (\<lambda>c. c \<noteq> CHR ''/'') (rev s))),
      Combine = joinPath,
      PathAppend = joinPath\<rparr>"

definition mkToken :: "Type_t \<Rightarrow> string \<Rightarrow> Token_t" where
  "mkToken ty s = \<lparr>tokType = ty, tokText = s, tokLine = 1, tokColumn = 0\<rparr>"

definition mkItem :: "Token_t list \<Rightarrow> TokenList_t" where
  "mkItem toks = \<lparr>firstTokenPtr = hd toks, contents = toks, lastTokenPtr = last toks\<rparr>"

definition emptyApp :: "string \<Rightarrow> App_t" where
  "emptyApp n =
     \<lparr>appName = n, appVersion = ''1.0'', appWorkingDir = ''app/'' @ n,
      appDefFilePath = n @ ''.adef'', ConfigFilePath = ''app/'' @ n @ ''/staging/root.cfg'',
      appBundledFiles = [], appBundledDirs = [], appBundledBinaries = [],
      appComponents = [], executables = [], externServerInterfaces = [],
      watchdogAction = None, watchdogTimeout = None\<rparr>"

text \<open>A system of one app \<open>a\<close> with one executable \<open>e\<close>, one component \<open>c\<close> and one client interface instance.\<close>

definition clientInterface ::
  "string \<Rightarrow> string \<Rightarrow> bool \<Rightarrow> Token_t option \<Rightarrow> ApiClientInterfaceInstance_t" where
  "clientInterface nm internal opt mark =
     \<lparr>ifInstanceName = nm, ifPtr = \<lparr>internalName = internal, optional = opt\<rparr>,
      bindingPtr = None, externMarkPtr = mark\<rparr>"

definition sampleComponent :: Component_t where
  "sampleComponent =
     \<lparr>componentName = ''c'', componentBundledFiles = [], componentBundledDirs = [],
      HasCOrCppCode = True, HasJavaCode = False, componentLib = ''libComponent_c.so''\<rparr>"

definition oneInterfaceApp :: "ApiClientInterfaceInstance_t \<Rightarrow> App_t" where
  "oneInterfaceApp inst =
     (emptyApp ''a'')\<lparr>executables :=
        [(''e'', \<lparr>exeName = ''e'', exePath = ''app/a/obj/e'',
                  componentInstances =
                    [\<lparr>componentPtr = sampleComponent, clientApis = [inst]\<rparr>]\<rparr>)]\<rparr>"

definition oneInterfaceSystem :: "ApiClientInterfaceInstance_t \<Rightarrow> System_t" where
  "oneInterfaceSystem inst = \<lparr>apps = [(''a'', oneInterfaceApp inst)]\<rparr>"

text \<open>The same system with two client interface instances in its component.\<close>

definition twoInterfaceSystem ::
  "ApiClientInterfaceInstance_t \<Rightarrow> ApiClientInterfaceInstance_t \<Rightarrow> System_t" where
  "twoInterfaceSystem first second =
     \<lparr>apps = [(''a'', (emptyApp ''a'')\<lparr>executables :=
        [(''e'', \<lparr>exeName = ''e'', exePath = ''app/a/obj/e'',
                  componentInstances =
                    [\<lparr>componentPtr = sampleComponent,
                      clientApis = [first, second]\<rparr>]\<rparr>)]\<rparr>)]\<rparr>"

definition mkFileObject :: "string \<Rightarrow> string \<Rightarrow> bool \<Rightarrow> bool \<Rightarrow> bool \<Rightarrow> FileSystemObject_t" where
  "mkFileObject src dest r w x =
     \<lparr>srcPath = src, destPath = dest,
      permissions = \<lparr>readable = r, writeable = w, executable = x\<rparr>\<rparr>"

text \<open>An app with one bundled file and one executable, and build parameters.\<close>

definition bundlingApp :: App_t where
  "bundlingApp =
     (emptyApp ''a'')
       \<lparr>appBundledFiles := [mkFileObject ''/a/x.txt'' ''/x.txt'' True False False],
        executables := [(''e'', \<lparr>exeName = ''e'', exePath = ''app/a/obj/e'',
                                componentInstances = []\<rparr>)]\<rparr>"

definition sampleBuildParams :: BuildParams_t where
  "sampleBuildParams =
     \<lparr>target = ''wp85'', outputDir = ''out'', workingDir = ''build'', codeGenOnly = False,
      binPack = False\<rparr>"

section \<open>Properties of the modeller\<close>

text \<open>
  C9. A bundled file or directory item and a required device item without a leading
  permissions token (its first content token is not a FILE_PERMISSIONS token; the second
  is the destination, which is not empty once substituted and unquoted) yields a
  FileSystemObject whose permissions are readable, not writeable and not executable.
\<close>

theorem GetPermissionItem_default_read_only:
  assumes "contents itemPtr = srcTok # destTok # others"
    and "tokType srcTok \<noteq> FILE_PERMISSIONS"
    and "Unquote ext (DoSubstitution ext (tokText destTok)) \<noteq> []"
  shows "\<exists>obj. GetBundledItem ext itemPtr = Inr obj
           \<and> GetRequiredDevice ext itemPtr = Inr obj
           \<and> permissions obj = \<lparr>readable = True, writeable = False, executable = False\<rparr>
           \<and> srcPath obj = Unquote ext (DoSubstitution ext (tokText srcTok))"
  using assms
  by (simp add: GetBundledItem_def GetRequiredDevice_def GetPermissionItem_def andThen_def
      Contents_at_def Let_def SetReadable_def Permissions_default_def)

theorem GetPermissionItem_default_read_only_witness:
  "GetBundledItem plainExternals
     (mkItem [mkToken FILE_PATH ''/usr/lib/libz.so'', mkToken FILE_PATH ''/lib/''])
   = Inr \<lparr>srcPath = ''/usr/lib/libz.so'', destPath = ''/lib/libz.so'',
           permissions = \<lparr>readable = True, writeable = False, executable = False\<rparr>\<rparr>
   \<and> GetRequiredDevice plainExternals
     (mkItem [mkToken FILE_PATH ''/usr/lib/libz.so'', mkToken FILE_PATH ''/lib/''])
   = Inr \<lparr>srcPath = ''/usr/lib/libz.so'', destPath = ''/lib/libz.so'',
           permissions = \<lparr>readable = True, writeable = False, executable = False\<rparr>\<rparr>"
  using GetPermissionItem_default_read_only
    [of "mkItem [mkToken FILE_PATH ''/usr/lib/libz.so'', mkToken FILE_PATH ''/lib/'']"
        "mkToken FILE_PATH ''/usr/lib/libz.so''" "mkToken FILE_PATH ''/lib/''" "[]"
        plainExternals]
  by (simp add: mkItem_def mkToken_def plainExternals_def GetBundledItem_def
      GetRequiredDevice_def GetPermissionItem_def andThen_def Contents_at_def Let_def
      SetReadable_def Permissions_default_def)

lemma forEach_Inr_all:
  "forEach f xs = Inr ys \<Longrightarrow> x \<in> set xs \<Longrightarrow> \<exists>y. f x = Inr y"
  by (induction xs arbitrary: ys) (auto split: sum.splits)

lemma forEach_Inl_ex:
  "x \<in> set xs \<Longrightarrow> f x = Inl e \<Longrightarrow> \<exists>e'. forEach f xs = Inl e'"
  by (cases "forEach f xs") (auto dest: forEach_Inr_all)

text \<open>
  C7. A required file or directory item whose source path, after environment-variable
  substitution and unquoting, ends in \<open>/\<close> makes \<open>GetRequiredFileOrDir\<close> throw
  "Required item's path must not end in a '/'."; and a run that models the required items
  before it generates stops with an exception and has written no build statement when
  such an item is among them.
\<close>

theorem GetRequiredFileOrDir_trailing_slash:
  assumes "contents itemPtr = srcTok # destTok # others"
    and "Unquote ext (DoSubstitution ext (tokText srcTok)) = p @ ''/''"
  shows "GetRequiredFileOrDir ext itemPtr
           = Inl (Exception_t ''Required item's path must not end in a '/'.'')
         \<and> (itemPtr \<in> set requiredItems
              \<longrightarrow> (\<exists>e. ModelThenGenerate ext requiredItems generate = (Some e, [])))"
proof -
  have err: "GetRequiredFileOrDir ext itemPtr
           = Inl (Exception_t ''Required item's path must not end in a '/'.'')"
    using assms by (simp add: GetRequiredFileOrDir_def andThen_def Contents_at_def Let_def)
  have "\<exists>e. ModelThenGenerate ext requiredItems generate = (Some e, [])"
    if mem: "itemPtr \<in> set requiredItems"
  proof -
    obtain e' where "forEach (GetRequiredFileOrDir ext) requiredItems = Inl e'"
      using forEach_Inl_ex [of itemPtr requiredItems "GetRequiredFileOrDir ext", OF mem err]
      by blast
    then show ?thesis by (simp add: ModelThenGenerate_def)
  qed
  with err show ?thesis by blast
qed

theorem GetRequiredFileOrDir_trailing_slash_witness:
  "GetRequiredFileOrDir plainExternals
     (mkItem [mkToken FILE_PATH ''/proc/'', mkToken FILE_PATH ''/proc''])
     = Inl (Exception_t ''Required item's path must not end in a '/'.'')
   \<and> ModelThenGenerate plainExternals
        [mkItem [mkToken FILE_PATH ''/etc/hosts'', mkToken FILE_PATH ''/etc/''],
         mkItem [mkToken FILE_PATH ''/proc/'', mkToken FILE_PATH ''/proc'']]
        (\<lambda>objs. (None, [BundleFileStatement ''out'' ''in'' Permissions_default]))
     = (Some (Exception_t ''Required item's path must not end in a '/'.''), [])"
  using GetRequiredFileOrDir_trailing_slash
    [of "mkItem [mkToken FILE_PATH ''/proc/'', mkToken FILE_PATH ''/proc'']"
        "mkToken FILE_PATH ''/proc/''" "mkToken FILE_PATH ''/proc''" "[]"
        plainExternals "''/proc''"]
  by (simp add: mkItem_def mkToken_def plainExternals_def ModelThenGenerate_def
      GetRequiredFileOrDir_def andThen_def Contents_at_def Let_def)

text \<open>
  C10. When the app's watchdogAction setting is already set, \<open>SetWatchdogAction\<close> throws
  "Only one watchdogAction section allowed." and leaves the app, and so the stored value,
  as it was; the same holds for \<open>SetWatchdogTimeout\<close> and the watchdogTimeout setting.
  So after a first section has set the setting of an app in which it was unset, every
  further section is rejected and the value of the first stays.
\<close>

theorem SetWatchdog_only_one_section:
  "(watchdogAction appPtr \<noteq> None \<longrightarrow>
      SetWatchdogAction appPtr sectionPtr
        = (Some (Exception_t ''Only one watchdogAction section allowed.''), appPtr))
   \<and> (watchdogTimeout appPtr \<noteq> None \<longrightarrow>
      SetWatchdogTimeout appPtr sectionPtr
        = (Some (Exception_t ''Only one watchdogTimeout section allowed.''), appPtr))
   \<and> (watchdogAction appPtr = None \<and> contents firstSection = tok # others \<longrightarrow>
        SetWatchdogAction appPtr firstSection
          = (None, appPtr\<lparr>watchdogAction := Some (tokText tok)\<rparr>)
        \<and> SetWatchdogAction (appPtr\<lparr>watchdogAction := Some (tokText tok)\<rparr>) sectionPtr
          = (Some (Exception_t ''Only one watchdogAction section allowed.''),
             appPtr\<lparr>watchdogAction := Some (tokText tok)\<rparr>))
   \<and> (watchdogTimeout appPtr = None \<and> contents firstSection = tok # others
        \<and> tokType tok = NAME \<longrightarrow>
        SetWatchdogTimeout appPtr firstSection
          = (None, appPtr\<lparr>watchdogTimeout := Some (- 1)\<rparr>)
        \<and> SetWatchdogTimeout (appPtr\<lparr>watchdogTimeout := Some (- 1)\<rparr>) sectionPtr
          = (Some (Exception_t ''Only one watchdogTimeout section allowed.''),
             appPtr\<lparr>watchdogTimeout := Some (- 1)\<rparr>))"
  by (simp add: SetWatchdogAction_def SetWatchdogTimeout_def Contents_at_def)

theorem SetWatchdog_only_one_section_witness:
  "SetWatchdogAction ((emptyApp ''a'')\<lparr>watchdogAction := Some ''restart''\<rparr>)
     (mkItem [mkToken NAME ''stop''])
     = (Some (Exception_t ''Only one watchdogAction section allowed.''),
        (emptyApp ''a'')\<lparr>watchdogAction := Some ''restart''\<rparr>)
   \<and> SetWatchdogTimeout ((emptyApp ''a'')\<lparr>watchdogTimeout := Some 5000\<rparr>)
     (mkItem [mkToken INTEGER ''3000''])
     = (Some (Exception_t ''Only one watchdogTimeout section allowed.''),
        (emptyApp ''a'')\<lparr>watchdogTimeout := Some 5000\<rparr>)
   \<and> SetWatchdogAction (emptyApp ''a'') (mkItem [mkToken NAME ''restart''])
     = (None, (emptyApp ''a'')\<lparr>watchdogAction := Some ''restart''\<rparr>)"
  using SetWatchdog_only_one_section
    [of "(emptyApp ''a'')\<lparr>watchdogAction := Some ''restart'', watchdogTimeout := Some 5000\<rparr>"
        "mkItem [mkToken NAME ''stop'']"]
    SetWatchdog_only_one_section
    [where appPtr = "emptyApp ''a''" and firstSection = "mkItem [mkToken NAME ''restart'']"
       and tok = "mkToken NAME ''restart''" and others = "[]"]
  by (simp add: emptyApp_def mkItem_def mkToken_def SetWatchdogAction_def
      SetWatchdogTimeout_def Contents_at_def)

text \<open>
  C6. \<open>GetNonNegativeInt\<close>, \<open>GetPositiveInt\<close> and \<open>GetInt\<close> report a number that does
  not fit as an exception only while the digits are read: the multiplication by 1024 for
  the \<open>K\<close> suffix is done in 64-bit arithmetic and wraps around unreported.
  \<open>18014398509481985K\<close> (\<open>2^54 + 1\<close> times 1024) comes back as 1024 from
  \<open>GetNonNegativeInt\<close> and \<open>GetPositiveInt\<close>, and \<open>9007199254740992K\<close> (\<open>2^53\<close>
  times 1024) as the most negative value from \<open>GetInt\<close>, whereas the digits
  \<open>18446744073709551616\<close> (\<open>2^64\<close>) are reported.
\<close>

theorem GetInt_K_overflow_unreported:
  "GetNonNegativeInt (mkItem [mkToken INTEGER ''18014398509481985K'']) = Inr 1024
   \<and> GetPositiveInt (mkItem [mkToken INTEGER ''18014398509481985K'']) = Inr 1024
   \<and> GetInt (mkItem [mkToken INTEGER ''9007199254740992K''])
       = Inr (- 9223372036854775808)
   \<and> GetNonNegativeInt (mkItem [mkToken INTEGER ''18446744073709551616''])
       = Inl (Exception_t (''Value must be an integer between 0 and 18446744073709551615,''
                @ '' with an optional 'K' suffix.''))"
  by (simp add: GetPositiveInt_def GetNonNegativeInt_def GetInt_def mkItem_def mkToken_def
      andThen_def Contents_at_def strtoul_def strtol_def strto_subject_def isspace_def
      char_at_def is_digit_of_def digit_value_def Let_def ULONG_MAX_def LONG_MAX_def)

section \<open>Properties of the parser and of the watchdog timeout\<close>

lemma Skip_Nil: "SkipWhitespaceAndComments [] = Inr []"
  by (subst SkipWhitespaceAndComments.simps) (simp add: IsMatch_def)

lemma Skip_Cons_ignorable:
  "ignorable t \<Longrightarrow> SkipWhitespaceAndComments (t # rest) = SkipWhitespaceAndComments rest"
  by (subst SkipWhitespaceAndComments.simps) (auto simp: ignorable_def IsMatch_def Pull_def)

lemma Skip_Cons_other:
  "\<not> ignorable t \<Longrightarrow> SkipWhitespaceAndComments (t # rest) = Inr (t # rest)"
  by (subst SkipWhitespaceAndComments.simps) (auto simp: ignorable_def IsMatch_def Pull_def)

lemma Skip_append:
  "list_all ignorable ws \<Longrightarrow>
     SkipWhitespaceAndComments (ws @ rest) = SkipWhitespaceAndComments rest"
  by (induction ws) (simp_all add: Skip_Cons_ignorable)

lemma is_digit_of_10: "is_digit_of 10 c = isdigit c"
  by (auto simp: is_digit_of_def digit_value_def isdigit_def less_eq_char_def split: option.splits)

lemma digit_value_isdigit: "isdigit c \<Longrightarrow> digit_value c = Some (of_char c - 48)"
  by (simp add: digit_value_def isdigit_def)

lemma scan_digits_decimal:
  "list_all isdigit ds \<Longrightarrow> \<not> isdigit (char_at rest 0) \<Longrightarrow>
     scan_digits 10 (ds @ rest) acc
       = (foldl (\<lambda>a c. a * 10 + (of_char c - 48)) acc ds, rest)"
proof (induction ds arbitrary: acc)
  case Nil
  then show ?case by (cases rest) (simp_all add: is_digit_of_10 char_at_def)
next
  case (Cons d ds)
  then show ?case by (simp add: is_digit_of_10 digit_value_isdigit)
qed




lemma ParseSection_prefix:
  assumes "list_all ignorable ws1" and "list_all ignorable ws2" and "tokType colon = COLON"
  shows "andThen (SkipWhitespaceAndComments (ws1 @ colon # ws2 @ lexer)) (\<lambda>lexer1.
         andThen (Pull lexer1 COLON) (\<lambda>colon.
         andThen (SkipWhitespaceAndComments (snd colon)) k))
       = andThen (SkipWhitespaceAndComments lexer) k"
  using assms
  by (simp add: Skip_append Skip_Cons_other ignorable_def andThen_def Pull_def)




lemma ParseSimpleSection_stream:
  assumes "list_all ignorable ws1" and "list_all ignorable ws2" and "tokType colon = COLON"
    and "\<not> ignorable tok"
  shows "ParseSimpleSection (ws1 @ colon # ws2 @ tok # rest) nameTok ty =
     (if tokType tok = ty then Inr (AddContent tok (CreateTokenList nameTok), rest)
      else Inl (Exception_t ''Unexpected token.''))"
  unfolding ParseSimpleSection_def ParseSection_prefix [OF assms(1-3)]
  using assms(4)
  by (simp add: Skip_Cons_other andThen_def Pull_def)

lemma isdigit_NUL: "\<not> isdigit (CHR 0x00)"
  by (simp add: isdigit_def)

lemma rt_shape_iff:
  assumes "CHR 0x00 \<notin> set content"
  shows "rt_shape content
     = (\<exists>ds. content = ''rt'' @ ds \<and> (length ds = 1 \<or> length ds = 2) \<and> list_all isdigit ds)"
proof
  assume sh: "rt_shape content"
  then have d2: "isdigit (char_at content 2)" by (simp add: rt_shape_def)
  then have "2 < length content" using isdigit_NUL by (auto simp: char_at_def split: if_splits)
  then obtain c0 c1 c2 cs where c: "content = c0 # c1 # c2 # cs"
    by (cases content; cases "tl content"; cases "tl (tl content)") auto
  from sh c have rt: "c0 = CHR ''r''" "c1 = CHR ''t''" "isdigit c2"
    by (simp_all add: rt_shape_def char_at_def)
  from sh assms c have "cs = [] \<or> (\<exists>c3. cs = [c3] \<and> isdigit c3)"
    by (cases cs; cases "tl cs") (auto simp: rt_shape_def char_at_def isdigit_NUL)
  with c rt show "\<exists>ds. content = ''rt'' @ ds \<and> (length ds = 1 \<or> length ds = 2) \<and> list_all isdigit ds"
    by auto
next
  assume "\<exists>ds. content = ''rt'' @ ds \<and> (length ds = 1 \<or> length ds = 2) \<and> list_all isdigit ds"
  then obtain ds where ds: "content = ''rt'' @ ds" "length ds = 1 \<or> length ds = 2"
    "list_all isdigit ds" by blast
  from ds(2) show "rt_shape content"
  proof
    assume "length ds = 1"
    then obtain d where "ds = [d]" by (cases ds) auto
    with ds show ?thesis by (simp add: rt_shape_def char_at_def)
  next
    assume "length ds = 2"
    then obtain d e where "ds = [d, e]" by (cases ds; cases "tl ds") auto
    with ds show ?thesis by (simp add: rt_shape_def char_at_def)
  qed
qed

lemma read_unsigned_digits:
  "list_all isdigit ds \<Longrightarrow> read_unsigned ds = decimal ds"
  using scan_digits_decimal [of ds "[]" 0]
  by (simp add: read_unsigned_def decimal_def char_at_def isdigit_NUL)

lemma not_rt_names:
  "IsRealTimePriority content \<Longrightarrow>
     content \<noteq> ''idle'' \<and> content \<noteq> ''low'' \<and> content \<noteq> ''medium'' \<and> content \<noteq> ''high''"
  by (auto simp: IsRealTimePriority_def)

lemmas eval_parse = Skip_Cons_other Skip_Cons_ignorable Skip_Nil ignorable_def mkToken_def
  andThen_def IsMatch_def Pull_def AddContent_def CreateTokenList_def

text \<open>
  C4. After the section name, the colon and any whitespace and comments, a NAME token (its
  text holds no NUL character) is accepted by \<open>ParsePriority\<close> exactly when its text is
  \<open>idle\<close>, \<open>low\<close>, \<open>medium\<close> or \<open>high\<close>, or is \<open>rtN\<close> for a decimal number \<open>N\<close>
  of one or two digits with \<open>1 \<le> N \<le> 32\<close> and nothing after the digits; every other text
  is rejected with an exception. So \<open>rt0\<close>, \<open>rt33\<close> and \<open>rt1a\<close> are rejected.
\<close>

theorem ParsePriority_accepted_tokens:
  assumes "list_all ignorable ws1" and "list_all ignorable ws2" and "tokType colon = COLON"
    and "tokType tok = NAME" and "CHR 0x00 \<notin> set (tokText tok)"
  shows "(tokText tok \<in> {''idle'', ''low'', ''medium'', ''high''}
            \<or> IsRealTimePriority (tokText tok)
          \<longrightarrow> ParsePriority (ws1 @ colon # ws2 @ tok # rest) nameTok
                = Inr (AddContent tok (CreateTokenList nameTok), rest))
       \<and> (\<not> (tokText tok \<in> {''idle'', ''low'', ''medium'', ''high''}
               \<or> IsRealTimePriority (tokText tok))
          \<longrightarrow> (\<exists>msg. ParsePriority (ws1 @ colon # ws2 @ tok # rest) nameTok
                = Inl (Exception_t msg)))"
proof -
  let ?content = "tokText tok"
  have ign: "\<not> ignorable tok" using assms(4) by (simp add: ignorable_def)
  have sec: "ParseSimpleSection (ws1 @ colon # ws2 @ tok # rest) nameTok NAME
               = Inr (AddContent tok (CreateTokenList nameTok), rest)"
    using ParseSimpleSection_stream [OF assms(1-3) ign] assms(4) by simp
  have last: "tokText (lastTokenPtr (AddContent tok (CreateTokenList nameTok))) = ?content"
    by (simp add: AddContent_def)
  have shape: "rt_shape ?content
      = (\<exists>ds. ?content = ''rt'' @ ds \<and> (length ds = 1 \<or> length ds = 2) \<and> list_all isdigit ds)"
    by (rule rt_shape_iff [OF assms(5)])
  have rt: "IsRealTimePriority ?content
      = (rt_shape ?content \<and> 1 \<le> read_unsigned (drop 2 ?content)
           \<and> read_unsigned (drop 2 ?content) \<le> 32)"
    unfolding shape IsRealTimePriority_def
    by (auto simp: read_unsigned_digits)
  show ?thesis
    unfolding ParsePriority_def sec
    using rt not_rt_names [of ?content]
    by (auto simp: andThen_def Let_def last rt_shape_def not_less)
qed

theorem ParsePriority_accepted_tokens_witness:
  "ParsePriority [mkToken COLON '':'', mkToken WHITESPACE '' '', mkToken NAME ''rt32'']
     (mkToken NAME ''priority'')
     = Inr (AddContent (mkToken NAME ''rt32'') (CreateTokenList (mkToken NAME ''priority'')), [])
   \<and> ParsePriority [mkToken COLON '':'', mkToken NAME ''rt1''] (mkToken NAME ''priority'')
     = Inr (AddContent (mkToken NAME ''rt1'') (CreateTokenList (mkToken NAME ''priority'')), [])
   \<and> ParsePriority [mkToken COLON '':'', mkToken NAME ''medium''] (mkToken NAME ''priority'')
     = Inr (AddContent (mkToken NAME ''medium'') (CreateTokenList (mkToken NAME ''priority'')), [])
   \<and> ParsePriority [mkToken COLON '':'', mkToken NAME ''rt0''] (mkToken NAME ''priority'')
     = Inl (Exception_t (''Real-time priority level rt0 out of range.''
                         @ ''  Must be in the range 'rt1' through 'rt32'.''))
   \<and> ParsePriority [mkToken COLON '':'', mkToken NAME ''rt33''] (mkToken NAME ''priority'')
     = Inl (Exception_t (''Real-time priority level rt33 out of range.''
                         @ ''  Must be in the range 'rt1' through 'rt32'.''))
   \<and> ParsePriority [mkToken COLON '':'', mkToken NAME ''rt1a''] (mkToken NAME ''priority'')
     = Inl (Exception_t ''Invalid priority 'rt1a'.'')"
  using ParsePriority_accepted_tokens
    [of "[]" "[mkToken WHITESPACE '' '']" "mkToken COLON '':''" "mkToken NAME ''rt32''" "[]"
        "mkToken NAME ''priority''"]
  by (simp add: eval_parse ParsePriority_def ParseSimpleSection_def Let_def read_unsigned_def
      char_at_def isdigit_def is_digit_of_def digit_value_def)




section \<open>Properties of the binding resolver\<close>

lemma forEach_nth:
  "forEach f xs = Inr ys \<Longrightarrow> i < length xs \<Longrightarrow> f (xs ! i) = Inr (ys ! i)"
proof (induction xs arbitrary: ys i)
  case Nil
  then show ?case by simp
next
  case (Cons x xs)
  then show ?case by (cases i) (auto split: sum.splits)
qed

lemma andThen_Inr: "andThen m f = Inr y \<Longrightarrow> \<exists>x. m = Inr x \<and> f x = Inr y"
  by (cases m) (simp_all add: andThen_def)

lemma Bound_exe_nth:
  assumes "EnsureClientInterfacesBound_exe sys app exe = Inr exe'"
    and "c < length (componentInstances exe)"
    and "i < length (clientApis (componentInstances exe ! c))"
  shows "EnsureClientInterfacesBound_body sys app exe (componentInstances exe ! c)
           (clientApis (componentInstances exe ! c) ! i)
         = Inr (clientApis (componentInstances exe' ! c) ! i)"
proof -
  from assms(1) obtain cis where
    cis: "forEach (\<lambda>ci. andThen
            (forEach (EnsureClientInterfacesBound_body sys app exe ci) (clientApis ci))
            (\<lambda>ifs. Inr (ci\<lparr>clientApis := ifs\<rparr>))) (componentInstances exe) = Inr cis"
    and exe': "exe' = exe\<lparr>componentInstances := cis\<rparr>"
    unfolding EnsureClientInterfacesBound_exe_def by (auto dest!: andThen_Inr)
  from forEach_nth [OF cis assms(2)] obtain ifs where
    ifs: "forEach (EnsureClientInterfacesBound_body sys app exe (componentInstances exe ! c))
            (clientApis (componentInstances exe ! c)) = Inr ifs"
    and ci': "cis ! c = (componentInstances exe ! c)\<lparr>clientApis := ifs\<rparr>"
    by (auto dest!: andThen_Inr)
  from forEach_nth [OF ifs assms(3)] exe' ci' show ?thesis by simp
qed

lemma Bound_app_nth:
  assumes "EnsureClientInterfacesBound_app sys app = Inr app'"
    and "e < length (executables app)"
  shows "EnsureClientInterfacesBound_exe sys app (snd (executables app ! e))
         = Inr (snd (executables app' ! e))"
proof -
  from assms(1) obtain exes where
    exes: "forEach (\<lambda>mapItem. andThen (EnsureClientInterfacesBound_exe sys app (snd mapItem))
            (\<lambda>exePtr. Inr (fst mapItem, exePtr))) (executables app) = Inr exes"
    and app': "app' = app\<lparr>executables := exes\<rparr>"
    unfolding EnsureClientInterfacesBound_app_def by (auto dest!: andThen_Inr)
  from forEach_nth [OF exes assms(2)] app' show ?thesis
    by (auto dest!: andThen_Inr) (metis snd_conv)
qed

lemma Bound_sys_nth:
  assumes "EnsureClientInterfacesBound sys = Inr sys'"
    and "a < length (apps sys)"
  shows "EnsureClientInterfacesBound_app sys (snd (apps sys ! a)) = Inr (snd (apps sys' ! a))"
proof -
  from assms(1) obtain as where
    as: "forEach (\<lambda>entry. andThen (EnsureClientInterfacesBound_app sys (snd entry))
            (\<lambda>appPtr. Inr (fst entry, appPtr))) (apps sys) = Inr as"
    and sys': "sys' = sys\<lparr>apps := as\<rparr>"
    unfolding EnsureClientInterfacesBound_def by (auto dest!: andThen_Inr)
  from forEach_nth [OF as assms(2)] sys' show ?thesis
    by (auto dest!: andThen_Inr) (metis snd_conv)
qed

lemma Bound_body_at:
  assumes "EnsureClientInterfacesBound sys = Inr sys'" and "clientApiIndex sys a e c i"
  shows "EnsureClientInterfacesBound_body sys (snd (apps sys ! a))
           (snd (executables (snd (apps sys ! a)) ! e))
           (componentInstances (snd (executables (snd (apps sys ! a)) ! e)) ! c)
           (clientApiAt sys a e c i)
         = Inr (clientApiAt sys' a e c i)"
  using Bound_exe_nth [OF Bound_app_nth [OF Bound_sys_nth [OF assms(1)]]] assms(2)
  by (simp add: clientApiIndex_def clientApiAt_def appClientApiIndex_def appClientApiAt_def)

lemma Satisfied_body_at:
  assumes "EnsureClientInterfacesSatisfied app = Inr app'" and "appClientApiIndex app e c i"
  shows "EnsureClientInterfacesSatisfied_body app (snd (executables app ! e))
           (componentInstances (snd (executables app ! e)) ! c)
           (appClientApiAt app e c i)
         = Inr (appClientApiAt app' e c i)"
proof -
  from assms(2) have e: "e < length (executables app)"
    and c: "c < length (componentInstances (snd (executables app ! e)))"
    and i: "i < length (clientApis (componentInstances (snd (executables app ! e)) ! c))"
    by (simp_all add: appClientApiIndex_def)
  let ?exe = "snd (executables app ! e)"
  let ?ci = "componentInstances ?exe ! c"
  from assms(1) obtain exes where
    exes: "forEach (\<lambda>mapItem. andThen
            (forEach (\<lambda>ci. andThen
               (forEach (EnsureClientInterfacesSatisfied_body app (snd mapItem) ci)
                  (clientApis ci))
               (\<lambda>ifs. Inr (ci\<lparr>clientApis := ifs\<rparr>)))
               (componentInstances (snd mapItem)))
            (\<lambda>cis. Inr (fst mapItem, (snd mapItem)\<lparr>componentInstances := cis\<rparr>)))
          (executables app) = Inr exes"
    and app': "app' = app\<lparr>executables := exes\<rparr>"
    unfolding EnsureClientInterfacesSatisfied_def by (auto dest!: andThen_Inr)
  from forEach_nth [OF exes e] obtain cis where
    cis: "forEach (\<lambda>ci. andThen
               (forEach (EnsureClientInterfacesSatisfied_body app ?exe ci) (clientApis ci))
               (\<lambda>ifs. Inr (ci\<lparr>clientApis := ifs\<rparr>)))
               (componentInstances ?exe) = Inr cis"
    and exe': "exes ! e = (fst (executables app ! e), ?exe\<lparr>componentInstances := cis\<rparr>)"
    by (auto dest!: andThen_Inr)
  from forEach_nth [OF cis c] obtain ifs where
    ifs: "forEach (EnsureClientInterfacesSatisfied_body app ?exe ?ci) (clientApis ?ci) = Inr ifs"
    and ci': "cis ! c = ?ci\<lparr>clientApis := ifs\<rparr>"
    by (auto dest!: andThen_Inr)
  from forEach_nth [OF ifs i] app' exe' ci' show ?thesis
    by (simp add: appClientApiAt_def)
qed

lemma errorOf_forEach: "errorOf (forEach f xs) = firstError f xs"
  by (induction xs) (auto simp: errorOf_def split: sum.splits)

lemma errorOf_andThen_Inr: "errorOf (andThen m (\<lambda>x. Inr (k x))) = errorOf m"
  by (cases m) (simp_all add: errorOf_def andThen_def)

lemma firstError_append:
  "firstError f (xs @ ys) = (case firstError f xs of Some e \<Rightarrow> Some e | None \<Rightarrow> firstError f ys)"
  by (induction xs) (auto split: sum.splits)

lemma firstError_map: "firstError G (map h ys) = firstError (\<lambda>y. G (h y)) ys"
  by (induction ys) (auto split: sum.splits)

lemma firstError_errorOf:
  "firstError F (x # xs) = (case errorOf (F x) of Some e \<Rightarrow> Some e | None \<Rightarrow> firstError F xs)"
  by (simp add: errorOf_def split: sum.splits)

lemma firstError_nested:
  assumes "\<And>x. errorOf (F x) = firstError (\<lambda>y. G (p x, y)) (h x)"
  shows "firstError F xs = firstError G (concat (map (\<lambda>x. map (Pair (p x)) (h x)) xs))"
proof (induction xs)
  case Nil
  show ?case by simp
next
  case (Cons x xs)
  show ?case
    unfolding firstError_errorOf assms
    by (simp add: firstError_append firstError_map Cons.IH split: option.splits)
qed

lemma firstError_first:
  "\<forall>y\<in>set pre. errorOf (f y) = None \<Longrightarrow> f x = Inl e
   \<Longrightarrow> firstError f (pre @ x # post) = Some e"
  by (induction pre) (auto simp: errorOf_def split: sum.splits)

lemma firstError_SomeD:
  "firstError f xs = Some e \<Longrightarrow> \<exists>x\<in>set xs. f x = Inl e"
  by (induction xs) (auto split: sum.splits)

lemma firstError_not_None:
  "x \<in> set xs \<Longrightarrow> f x = Inl e \<Longrightarrow> \<exists>e'. firstError f xs = Some e'"
  by (induction xs) (auto split: sum.splits)

lemma errorOf_Some: "errorOf r = Some e \<longleftrightarrow> r = Inl e"
  by (cases r) (simp_all add: errorOf_def)

lemma errorOf_Bound_exe:
  "errorOf (EnsureClientInterfacesBound_exe sys app exe)
   = firstError (\<lambda>y. EnsureClientInterfacesBound_at sys (app, exe, y))
       (concat (map (\<lambda>ci. map (Pair ci) (clientApis ci)) (componentInstances exe)))"
  unfolding EnsureClientInterfacesBound_exe_def errorOf_andThen_Inr errorOf_forEach
  by (rule firstError_nested [where p = "\<lambda>ci. ci"])
     (simp add: errorOf_andThen_Inr errorOf_forEach EnsureClientInterfacesBound_at_def)

lemma errorOf_Bound_app:
  "errorOf (EnsureClientInterfacesBound_app sys app)
   = firstError (\<lambda>y. EnsureClientInterfacesBound_at sys (app, y))
       (concat (map (\<lambda>mapItem. map (Pair (snd mapItem))
          (concat (map (\<lambda>ci. map (Pair ci) (clientApis ci))
             (componentInstances (snd mapItem)))))
          (executables app)))"
  unfolding EnsureClientInterfacesBound_app_def errorOf_andThen_Inr errorOf_forEach
  by (rule firstError_nested [where p = snd])
     (simp add: errorOf_andThen_Inr errorOf_Bound_exe)

lemma errorOf_Bound:
  "errorOf (EnsureClientInterfacesBound sys)
   = firstError (EnsureClientInterfacesBound_at sys) (clientInterfaceInstances sys)"
  unfolding EnsureClientInterfacesBound_def errorOf_andThen_Inr errorOf_forEach
    clientInterfaceInstances_def
  by (rule firstError_nested [where p = snd])
     (simp add: errorOf_andThen_Inr errorOf_Bound_app)

text \<open>
  C2. A client interface instance that is unbound, not optional and not named \<open>le_cfg\<close>
  or \<open>le_wdog\<close> makes the body of the loop of \<open>EnsureClientInterfacesBound\<close> throw.
  Assume that the name of an instance without an extern mark is
  \<open>exeName.componentName.interfaceName\<close> (the code treats the name as an alias of that
  path only in its branch for an instance with an extern mark). Then the message is
  "Client interface 'PATH' is not bound to anything." without an extern mark and
  "Client interface 'APP.NAME' (aka 'PATH') is not bound to anything." with one, where
  PATH is the full dotted path \<open>appName.exeName.componentName.interfaceName\<close>: the
  message holds that path.
  \<open>EnsureClientInterfacesBound\<close> throws this very exception on a system in which the
  instances visited before this one are accepted, and on every system that holds the
  instance it throws the exception of the first instance that is not accepted.
\<close>

theorem EnsureClientInterfacesBound_unbound_error:
  assumes "bindingPtr ifInst = None" and "\<not> optional (ifPtr ifInst)"
    and "internalName (ifPtr ifInst) \<noteq> ''le_cfg''"
    and "internalName (ifPtr ifInst) \<noteq> ''le_wdog''"
    and "externMarkPtr ifInst = None \<longrightarrow>
           ifInstanceName ifInst
             = exeName exe @ ''.'' @ componentName (componentPtr ci) @ ''.''
               @ internalName (ifPtr ifInst)"
  shows "(let msg =
            (if externMarkPtr ifInst = None
             then ''Client interface '' @ [CHR 0x27] @ fullPath app exe ci ifInst
                  @ [CHR 0x27] @ '' is not bound to anything.''
             else ''Client interface '' @ [CHR 0x27] @ appName app @ ''.''
                  @ ifInstanceName ifInst @ [CHR 0x27] @ '' (aka '' @ [CHR 0x27]
                  @ fullPath app exe ci ifInst @ [CHR 0x27]
                  @ '') is not bound to anything.'')
          in EnsureClientInterfacesBound_body sys app exe ci ifInst = Inl (Exception_t msg)
             \<and> sublist (fullPath app exe ci ifInst) msg
             \<and> (clientInterfaceInstances sys = pre @ (app, exe, ci, ifInst) # post
                  \<and> (\<forall>q\<in>set pre. accepted sys q)
                \<longrightarrow> EnsureClientInterfacesBound sys = Inl (Exception_t msg))
             \<and> ((app, exe, ci, ifInst) \<in> set (clientInterfaceInstances sys)
                \<longrightarrow> (\<exists>e. EnsureClientInterfacesBound sys = Inl e
                         \<and> (\<exists>q\<in>set (clientInterfaceInstances sys).
                               EnsureClientInterfacesBound_at sys q = Inl e))))"
proof -
  define msg where "msg =
            (if externMarkPtr ifInst = None
             then ''Client interface '' @ [CHR 0x27] @ fullPath app exe ci ifInst
                  @ [CHR 0x27] @ '' is not bound to anything.''
             else ''Client interface '' @ [CHR 0x27] @ appName app @ ''.''
                  @ ifInstanceName ifInst @ [CHR 0x27] @ '' (aka '' @ [CHR 0x27]
                  @ fullPath app exe ci ifInst @ [CHR 0x27]
                  @ '') is not bound to anything.'')"
  have body: "EnsureClientInterfacesBound_body sys app exe ci ifInst = Inl (Exception_t msg)"
    using assms by (simp add: EnsureClientInterfacesBound_body_def msg_def fullPath_def)
  then have at: "EnsureClientInterfacesBound_at sys (app, exe, ci, ifInst)
                   = Inl (Exception_t msg)"
    by (simp add: EnsureClientInterfacesBound_at_def)
  have path: "sublist (fullPath app exe ci ifInst) msg"
  proof (cases "externMarkPtr ifInst = None")
    case True
    then have "msg = (''Client interface '' @ [CHR 0x27]) @ fullPath app exe ci ifInst
                 @ ([CHR 0x27] @ '' is not bound to anything.'')"
      by (simp add: msg_def)
    then show ?thesis unfolding sublist_def by blast
  next
    case False
    then have "msg = (''Client interface '' @ [CHR 0x27] @ appName app @ ''.''
                  @ ifInstanceName ifInst @ [CHR 0x27] @ '' (aka '' @ [CHR 0x27])
                  @ fullPath app exe ci ifInst
                  @ ([CHR 0x27] @ '') is not bound to anything.'')"
      by (simp add: msg_def)
    then show ?thesis unfolding sublist_def by blast
  qed
  have first: "EnsureClientInterfacesBound sys = Inl (Exception_t msg)"
    if "clientInterfaceInstances sys = pre @ (app, exe, ci, ifInst) # post
          \<and> (\<forall>q\<in>set pre. accepted sys q)"
  proof -
    from that have "firstError (EnsureClientInterfacesBound_at sys)
                      (clientInterfaceInstances sys) = Some (Exception_t msg)"
      using firstError_first [of pre "EnsureClientInterfacesBound_at sys"
          "(app, exe, ci, ifInst)" "Exception_t msg" post] at
      by (simp add: accepted_def)
    then show ?thesis by (simp add: errorOf_Bound [symmetric] errorOf_Some)
  qed
  have some: "\<exists>e. EnsureClientInterfacesBound sys = Inl e
                         \<and> (\<exists>q\<in>set (clientInterfaceInstances sys).
                               EnsureClientInterfacesBound_at sys q = Inl e)"
    if mem: "(app, exe, ci, ifInst) \<in> set (clientInterfaceInstances sys)"
  proof -
    from firstError_not_None [of "(app, exe, ci, ifInst)" "clientInterfaceInstances sys"
        "EnsureClientInterfacesBound_at sys" "Exception_t msg", OF mem at] obtain e where
      e: "firstError (EnsureClientInterfacesBound_at sys) (clientInterfaceInstances sys)
            = Some e" by blast
    then have "EnsureClientInterfacesBound sys = Inl e"
      by (simp add: errorOf_Bound [symmetric] errorOf_Some)
    with firstError_SomeD [of "EnsureClientInterfacesBound_at sys"
        "clientInterfaceInstances sys" e, OF e] show ?thesis by blast
  qed
  from body path first some show ?thesis
    unfolding Let_def msg_def [symmetric] by blast
qed

theorem EnsureClientInterfacesBound_unbound_error_witness:
  "EnsureClientInterfacesBound_body
     (twoInterfaceSystem (clientInterface ''e.c.le_cfg'' ''le_cfg'' False None)
        (clientInterface ''e.c.foo'' ''foo'' False None))
     (emptyApp ''a'')
     \<lparr>exeName = ''e'', exePath = ''app/a/obj/e'', componentInstances = []\<rparr>
     \<lparr>componentPtr = sampleComponent, clientApis = []\<rparr>
     (clientInterface ''e.c.foo'' ''foo'' False None)
     = Inl (Exception_t ''Client interface 'a.e.c.foo' is not bound to anything.'')
   \<and> sublist ''a.e.c.foo'' ''Client interface 'a.e.c.foo' is not bound to anything.''
   \<and> EnsureClientInterfacesBound
     (twoInterfaceSystem (clientInterface ''e.c.le_cfg'' ''le_cfg'' False None)
        (clientInterface ''e.c.foo'' ''foo'' False None))
     = Inl (Exception_t ''Client interface 'a.e.c.foo' is not bound to anything.'')"
  using EnsureClientInterfacesBound_unbound_error
    [where ifInst = "clientInterface ''e.c.foo'' ''foo'' False None"
       and sys = "twoInterfaceSystem (clientInterface ''e.c.le_cfg'' ''le_cfg'' False None)
                    (clientInterface ''e.c.foo'' ''foo'' False None)"
       and app = "snd (hd (apps (twoInterfaceSystem
                    (clientInterface ''e.c.le_cfg'' ''le_cfg'' False None)
                    (clientInterface ''e.c.foo'' ''foo'' False None))))"
       and exe = "snd (hd (executables (snd (hd (apps (twoInterfaceSystem
                    (clientInterface ''e.c.le_cfg'' ''le_cfg'' False None)
                    (clientInterface ''e.c.foo'' ''foo'' False None)))))))"
       and ci = "hd (componentInstances (snd (hd (executables (snd (hd (apps
                    (twoInterfaceSystem
                    (clientInterface ''e.c.le_cfg'' ''le_cfg'' False None)
                    (clientInterface ''e.c.foo'' ''foo'' False None)))))))))"
       and pre = "[(snd (hd (apps (twoInterfaceSystem
                    (clientInterface ''e.c.le_cfg'' ''le_cfg'' False None)
                    (clientInterface ''e.c.foo'' ''foo'' False None)))),
                   snd (hd (executables (snd (hd (apps (twoInterfaceSystem
                    (clientInterface ''e.c.le_cfg'' ''le_cfg'' False None)
                    (clientInterface ''e.c.foo'' ''foo'' False None))))))),
                   hd (componentInstances (snd (hd (executables (snd (hd (apps
                    (twoInterfaceSystem
                    (clientInterface ''e.c.le_cfg'' ''le_cfg'' False None)
                    (clientInterface ''e.c.foo'' ''foo'' False None))))))))),
                   clientInterface ''e.c.le_cfg'' ''le_cfg'' False None)]"
       and post = "[]"]
  by (simp add: twoInterfaceSystem_def clientInterface_def emptyApp_def
      sampleComponent_def EnsureClientInterfacesBound_body_def andThen_def
      clientInterfaceInstances_def accepted_def errorOf_def EnsureClientInterfacesBound_at_def
      fullPath_def Let_def)

text \<open>
  C3. For a client interface instance whose internal name is \<open>le_cfg\<close> or \<open>le_wdog\<close>
  and that is unbound and not optional, the loop body of \<open>EnsureClientInterfacesBound\<close>
  throws nothing and binds it to the service of that name of the non-app user \<open>root\<close>;
  the loop body of \<open>EnsureClientInterfacesSatisfied\<close> does the same when the instance
  carries no extern mark. When either function returns, the instance at the same place in
  the result is the instance bound this way.
\<close>

theorem privileged_interfaces_bound_to_root:
  assumes "bindingPtr ifInst = None" and "\<not> optional (ifPtr ifInst)"
    and "internalName (ifPtr ifInst) = svc" and "svc = ''le_cfg'' \<or> svc = ''le_wdog''"
  shows "EnsureClientInterfacesBound_body sys app exe ci ifInst
           = Inr (BindToRootService app ifInst svc)
       \<and> (externMarkPtr ifInst = None \<longrightarrow>
            EnsureClientInterfacesSatisfied_body app exe ci ifInst
              = Inr (BindToRootService app ifInst svc))
       \<and> bindingPtr (BindToRootService app ifInst svc)
           = Some \<lparr>bindingParseTreePtr = False, clientType = INTERNAL,
                   clientAgentName = appName app, clientIfName = ifInstanceName ifInst,
                   serverType = EXTERNAL_USER, serverAgentName = ''root'',
                   serverIfName = svc\<rparr>
       \<and> (EnsureClientInterfacesBound sys = Inr sys' \<and> clientApiIndex sys a e c i
            \<and> clientApiAt sys a e c i = ifInst \<longrightarrow>
            clientApiAt sys' a e c i = BindToRootService (snd (apps sys ! a)) ifInst svc)
       \<and> (EnsureClientInterfacesSatisfied app = Inr app' \<and> appClientApiIndex app e c i
            \<and> appClientApiAt app e c i = ifInst \<and> externMarkPtr ifInst = None \<longrightarrow>
            appClientApiAt app' e c i = BindToRootService app ifInst svc)"
proof -
  have sysBody: "EnsureClientInterfacesBound_body s p x y ifInst
           = Inr (BindToRootService p ifInst svc)" for s p x y
    using assms by (auto simp: EnsureClientInterfacesBound_body_def)
  have appBody: "EnsureClientInterfacesSatisfied_body p x y ifInst
              = Inr (BindToRootService p ifInst svc)" if "externMarkPtr ifInst = None" for p x y
    using assms that by (auto simp: EnsureClientInterfacesSatisfied_body_def)
  have binding: "bindingPtr (BindToRootService app ifInst svc)
           = Some \<lparr>bindingParseTreePtr = False, clientType = INTERNAL,
                   clientAgentName = appName app, clientIfName = ifInstanceName ifInst,
                   serverType = EXTERNAL_USER, serverAgentName = ''root'',
                   serverIfName = svc\<rparr>"
    by (simp add: BindToRootService_def)
  have sysWhole: "clientApiAt sys' a e c i = BindToRootService (snd (apps sys ! a)) ifInst svc"
    if "EnsureClientInterfacesBound sys = Inr sys' \<and> clientApiIndex sys a e c i
            \<and> clientApiAt sys a e c i = ifInst"
    using Bound_body_at [of sys sys' a e c i] that sysBody by simp
  have appWhole: "appClientApiAt app' e c i = BindToRootService app ifInst svc"
    if "EnsureClientInterfacesSatisfied app = Inr app' \<and> appClientApiIndex app e c i
            \<and> appClientApiAt app e c i = ifInst \<and> externMarkPtr ifInst = None"
    using Satisfied_body_at [of app app' e c i] that appBody by simp
  from sysBody appBody binding sysWhole appWhole show ?thesis by blast
qed

theorem privileged_interfaces_bound_to_root_witness:
  "EnsureClientInterfacesBound
     (oneInterfaceSystem (clientInterface ''e.c.le_cfg'' ''le_cfg'' False None))
     = Inr (oneInterfaceSystem
              ((clientInterface ''e.c.le_cfg'' ''le_cfg'' False None)
                 \<lparr>bindingPtr := Some
                    \<lparr>bindingParseTreePtr = False, clientType = INTERNAL,
                     clientAgentName = ''a'', clientIfName = ''e.c.le_cfg'',
                     serverType = EXTERNAL_USER, serverAgentName = ''root'',
                     serverIfName = ''le_cfg''\<rparr>\<rparr>))
   \<and> EnsureClientInterfacesSatisfied
     (oneInterfaceApp (clientInterface ''e.c.le_wdog'' ''le_wdog'' False None))
     = Inr (oneInterfaceApp
              ((clientInterface ''e.c.le_wdog'' ''le_wdog'' False None)
                 \<lparr>bindingPtr := Some
                    \<lparr>bindingParseTreePtr = False, clientType = INTERNAL,
                     clientAgentName = ''a'', clientIfName = ''e.c.le_wdog'',
                     serverType = EXTERNAL_USER, serverAgentName = ''root'',
                     serverIfName = ''le_wdog''\<rparr>\<rparr>))"
  using privileged_interfaces_bound_to_root
    [of "clientInterface ''e.c.le_cfg'' ''le_cfg'' False None" "''le_cfg''"
        "oneInterfaceSystem (clientInterface ''e.c.le_cfg'' ''le_cfg'' False None)"
        "oneInterfaceApp (clientInterface ''e.c.le_cfg'' ''le_cfg'' False None)"]
  by (simp add: oneInterfaceSystem_def oneInterfaceApp_def clientInterface_def emptyApp_def
      sampleComponent_def EnsureClientInterfacesBound_def EnsureClientInterfacesBound_app_def
      EnsureClientInterfacesBound_exe_def EnsureClientInterfacesBound_body_def
      EnsureClientInterfacesSatisfied_def EnsureClientInterfacesSatisfied_body_def
      BindToRootService_def andThen_def)

text \<open>
  An unbound, non-optional \<open>le_cfg\<close> instance that carries an extern mark passes
  \<open>EnsureClientInterfacesSatisfied\<close> as it is: the app comes back unchanged, and the
  instance has no binding.
\<close>

theorem EnsureClientInterfacesSatisfied_extern_counterexample:
  "EnsureClientInterfacesSatisfied
     (oneInterfaceApp
        (clientInterface ''cfg'' ''le_cfg'' False (Some (mkToken NAME ''cfg''))))
     = Inr (oneInterfaceApp
              (clientInterface ''cfg'' ''le_cfg'' False (Some (mkToken NAME ''cfg''))))
   \<and> bindingPtr (clientInterface ''cfg'' ''le_cfg'' False (Some (mkToken NAME ''cfg''))) = None
   \<and> \<not> optional (ifPtr (clientInterface ''cfg'' ''le_cfg'' False (Some (mkToken NAME ''cfg''))))
   \<and> internalName (ifPtr (clientInterface ''cfg'' ''le_cfg'' False (Some (mkToken NAME ''cfg''))))
       = ''le_cfg''"
  by (simp add: oneInterfaceApp_def clientInterface_def emptyApp_def sampleComponent_def
      EnsureClientInterfacesSatisfied_def EnsureClientInterfacesSatisfied_body_def
      andThen_def mkToken_def)

section \<open>Properties of the bundling of files\<close>

lemma set_find_None: "(set_find f S = None) = (destPath f \<notin> destPath ` set S)"
  unfolding set_find_def find_None_iff image_iff by metis



lemma set_set_insert:
  "set (set_insert f S) = (if destPath f \<in> destPath ` set S then set S else insert f (set S))"
  by (simp add: set_insert_def set_find_None set_insort_key)























text \<open>
  The statements for the executables of an app are written without a look at the set: a
  bundled file whose destination is \<open>/bin/e\<close> and the executable \<open>e\<close> give two
  BundleFile statements with the same output.
\<close>

lemma GenerateStagingBundleBuildStatements_executable_unchecked:
  "GenerateStagingBundleBuildStatements plainExternals (\<lambda>p. None)
     ((emptyApp ''a'')
        \<lparr>appBundledFiles := [mkFileObject ''/a/e'' ''/bin/e'' True False True],
         executables := [(''e'', \<lparr>exeName = ''e'', exePath = ''app/a/obj/e'',
                                 componentInstances = []\<rparr>)]\<rparr>) ([], [])
   = Inr ([BundleFileStatement ''$builddir/app/a/staging/read-only/bin/e'' ''/a/e''
             \<lparr>readable = True, writeable = False, executable = True\<rparr>,
           BundleFileStatement ''$builddir/app/a/staging/read-only/bin/e''
             ''$builddir/app/a/obj/e''
             \<lparr>readable = True, writeable = False, executable = True\<rparr>],
          [mkFileObject ''/a/e'' ''$builddir/app/a/staging/read-only/bin/e''
             True False True])"
  by (simp add: emptyApp_def mkFileObject_def plainExternals_def joinPath_def
      GenerateStagingBundleBuildStatements_def StagedExePath_def andThen_def
      GenerateFileBundleBuildStatement_app_def GenerateFileBundleBuildStatement_def
      set_find_def set_insert_def Let_def)

section \<open>Properties of the statements for the app bundle\<close>

lemma staged_refl: "staged st st"
  by (simp add: staged_def)

lemma staged_trans:
  assumes "staged st st'" and "staged st' st''"
  shows "staged st st''"
proof -
  from assms(1) obtain new1 where n1: "fst st' = fst st @ new1"
    and r1: "\<And>s. s \<in> set new1 \<Longrightarrow> stmtRule s = ''BundleFile''"
    and o1: "\<And>s. s \<in> set new1 \<Longrightarrow> stmtOutput s \<in> destPath ` set (snd st')"
    and s1: "destPath ` set (snd st) \<subseteq> destPath ` set (snd st')"
    unfolding staged_def by blast
  from assms(2) obtain new2 where n2: "fst st'' = fst st' @ new2"
    and r2: "\<And>s. s \<in> set new2 \<Longrightarrow> stmtRule s = ''BundleFile''"
    and o2: "\<And>s. s \<in> set new2 \<Longrightarrow> stmtOutput s \<in> destPath ` set (snd st'')"
    and s2: "destPath ` set (snd st') \<subseteq> destPath ` set (snd st'')"
    unfolding staged_def by blast
  have a: "fst st'' = fst st @ (new1 @ new2)" using n1 n2 by simp
  have b: "\<forall>s\<in>set (new1 @ new2). stmtRule s = ''BundleFile''
              \<and> stmtOutput s \<in> destPath ` set (snd st'')"
  proof
    fix s assume "s \<in> set (new1 @ new2)"
    then consider "s \<in> set new1" | "s \<in> set new2" by auto
    then show "stmtRule s = ''BundleFile'' \<and> stmtOutput s \<in> destPath ` set (snd st'')"
    proof cases
      case 1
      from o1 [OF 1] s2 have "stmtOutput s \<in> destPath ` set (snd st'')" by (rule subsetD [rotated])
      with r1 [OF 1] show ?thesis by simp
    next
      case 2
      with r2 o2 show ?thesis by simp
    qed
  qed
  have c: "destPath ` set (snd st) \<subseteq> destPath ` set (snd st'')"
    using s1 s2 by (rule subset_trans)
  show ?thesis unfolding staged_def by (intro exI [of _ "new1 @ new2"] conjI a b c)
qed

lemma staged_foldEach:
  assumes "\<And>x st st'. f x st = Inr st' \<Longrightarrow> staged st st'"
  shows "foldEach f xs st = Inr st' \<Longrightarrow> staged st st'"
proof (induction xs arbitrary: st)
  case Nil
  then show ?case by (simp add: staged_refl)
next
  case (Cons x xs)
  from Cons.prems obtain st1 where 1: "f x st = Inr st1" and 2: "foldEach f xs st1 = Inr st'"
    by (cases "f x st") simp_all
  from assms [OF 1] Cons.IH [OF 2] show ?case by (rule staged_trans)
qed

lemma andThen_Inr_staged:
  "andThen m k = Inr y \<Longrightarrow> (\<And>x. m = Inr x \<Longrightarrow> k x = Inr y \<Longrightarrow> P) \<Longrightarrow> P"
  by (cases m) (simp_all add: andThen_def)

lemma stmt_BundleFileStatement:
  "stmtRule (BundleFileStatement d s p) = ''BundleFile''"
  "stmtOutput (BundleFileStatement d s p) = d"
  by (simp_all add: BundleFileStatement_def)

lemma dest_set_insert:
  "destPath ` set (set_insert f S) = insert (destPath f) (destPath ` set S)"
  by (simp add: set_set_insert insert_absorb)

lemma staged_one:
  "staged (sc, S) (sc @ [BundleFileStatement (destPath f) src p], set_insert f S)"
  unfolding staged_def
  by (intro exI [of _ "[BundleFileStatement (destPath f) src p]"])
     (simp add: stmt_BundleFileStatement dest_set_insert subset_insertI)

lemma staged_File:
  assumes "GenerateFileBundleBuildStatement f st = Inr st'"
  shows "staged st st'"
proof (cases "set_find f (snd st)")
  case None
  with assms have "st' = (fst st @ [BundleFileStatement (destPath f) (srcPath f)
                           (permissions f)], set_insert f (snd st))"
    by (simp add: GenerateFileBundleBuildStatement_def)
  with staged_one [of "fst st" "snd st" f "srcPath f" "permissions f"] show ?thesis by simp
next
  case (Some g)
  with assms have "st' = st"
    by (simp add: GenerateFileBundleBuildStatement_def split: if_splits)
  then show ?thesis by (simp add: staged_refl)
qed

lemma staged_entries:
  "GenerateDirBundleBuildStatements_entries ext es fobj st = Inr st' \<Longrightarrow> staged st st'"
proof (induction ext es fobj st arbitrary: st'
    rule: GenerateDirBundleBuildStatements_entries.induct)
  case (1 ext fileObject st)
  then show ?case by (simp add: staged_refl)
next
  case (2 ext d_name node entries fileObject st)
  let ?obj = "\<lparr>srcPath = Combine ext (srcPath fileObject) d_name,
                 destPath = Combine ext (destPath fileObject) d_name,
                 permissions = permissions fileObject\<rparr>"
  show ?case
  proof (cases "d_name \<noteq> ''.'' \<and> d_name \<noteq> ''..''")
    case False
    with 2 show ?thesis by auto
  next
    case True
    show ?thesis
    proof (cases node)
      case FsFile
      with True "2.prems" obtain st1 where
        a: "GenerateFileBundleBuildStatement ?obj st = Inr st1"
        and b: "GenerateDirBundleBuildStatements_entries ext entries fileObject st1 = Inr st'"
        by (auto split: sum.splits)
      from staged_File [OF a] "2.IH"(2) [OF True _ b] FsFile a
      show ?thesis by (auto intro: staged_trans)
    next
      case (FsDir sub)
      with True "2.prems" obtain st1 where
        a: "GenerateDirBundleBuildStatements_entries ext sub ?obj st = Inr st1"
        and b: "GenerateDirBundleBuildStatements_entries ext entries fileObject st1 = Inr st'"
        by (auto split: sum.splits)
      from "2.IH"(1) [OF True FsDir a] "2.IH"(2) [OF True _ b] FsDir a
      show ?thesis by (auto intro: staged_trans)
    next
      case FsOther
      with True "2.prems" show ?thesis by simp
    qed
  qed
qed

lemma staged_Dir:
  "GenerateDirBundleBuildStatements ext fs fobj st = Inr st' \<Longrightarrow> staged st st'"
  by (auto simp: GenerateDirBundleBuildStatements_def dest: staged_entries
      split: option.splits FsNode.splits)

lemma staged_File_app:
  "GenerateFileBundleBuildStatement_app ext appPtr fobj st = Inr st' \<Longrightarrow> staged st st'"
  by (auto simp: GenerateFileBundleBuildStatement_app_def Let_def dest: staged_File)

lemma staged_Dir_app:
  "GenerateDirBundleBuildStatements_app ext fs appPtr fobj st = Inr st' \<Longrightarrow> staged st st'"
  by (auto simp: GenerateDirBundleBuildStatements_app_def Let_def dest: staged_Dir)

lemma staged_component:
  assumes "GenerateStagingBundleBuildStatements_component ext fs appPtr compPtr st = Inr st'"
  shows "staged st st'"
proof -
  let ?dest = "''$builddir/'' @ appWorkingDir appPtr @ ''/staging/read-only/lib/''
                        @ GetLastNode ext (componentLib compPtr)"
  let ?obj = "\<lparr>srcPath = componentLib compPtr, destPath = ?dest,
               permissions = \<lparr>readable = True, writeable = False,
                              executable = HasCOrCppCode compPtr\<rparr>\<rparr>"
  let ?lib = "\<lambda>st2. if HasCOrCppCode compPtr \<or> HasJavaCode compPtr
       then Inr (fst st2 @ [BundleFileStatement ?dest (componentLib compPtr)
                                 \<lparr>readable = True, writeable = False, executable = True\<rparr>],
                 set_insert ?obj (snd st2))
       else (Inr st2 :: failure + (Script \<times> FileSystemObjectSet_t))"
  from assms [unfolded GenerateStagingBundleBuildStatements_component_def Let_def]
  obtain st1 where
    1: "foldEach (GenerateFileBundleBuildStatement_app ext appPtr)
          (componentBundledFiles compPtr) st = Inr st1"
    and r1: "andThen (foldEach (GenerateDirBundleBuildStatements_app ext fs appPtr)
                (componentBundledDirs compPtr) st1) ?lib = Inr st'"
    by (rule andThen_Inr_staged)
  from r1 obtain st2 where
    2: "foldEach (GenerateDirBundleBuildStatements_app ext fs appPtr)
          (componentBundledDirs compPtr) st1 = Inr st2"
    and 3: "?lib st2 = Inr st'"
    by (rule andThen_Inr_staged)
  have a: "staged st st1"
    using 1 by (rule staged_foldEach [rotated]) (rule staged_File_app)
  have b: "staged st1 st2"
    using 2 by (rule staged_foldEach [rotated]) (rule staged_Dir_app)
  have c: "staged st2 st'"
  proof (cases "HasCOrCppCode compPtr \<or> HasJavaCode compPtr")
    case True
    with 3 have "st' = (fst st2 @ [BundleFileStatement (destPath ?obj)
                 (componentLib compPtr)
                 \<lparr>readable = True, writeable = False, executable = True\<rparr>],
               set_insert ?obj (snd st2))"
      by simp
    with staged_one [of "fst st2" "snd st2" ?obj "componentLib compPtr"
        "\<lparr>readable = True, writeable = False, executable = True\<rparr>"]
    show ?thesis by simp
  next
    case False
    with 3 show ?thesis by (simp add: staged_refl)
  qed
  from a b c show ?thesis by (blast intro: staged_trans)
qed

lemma staging_statements:
  assumes "GenerateStagingBundleBuildStatements ext fs appPtr (script, []) = Inr (script', S)"
  shows "\<exists>new. script' = script @ new
           \<and> (\<forall>s\<in>set new. stmtRule s = ''BundleFile''
                 \<and> (stmtOutput s \<in> destPath ` set S
                      \<or> stmtOutput s \<in> (\<lambda>mapItem. StagedExePath appPtr (snd mapItem))
                                          ` set (executables appPtr)))"
proof -
  from assms [unfolded GenerateStagingBundleBuildStatements_def]
  obtain st1 where
    1: "foldEach (GenerateFileBundleBuildStatement_app ext appPtr)
          (appBundledFiles appPtr) (script, []) = Inr st1"
    and r1: "andThen (foldEach (GenerateDirBundleBuildStatements_app ext fs appPtr)
                (appBundledDirs appPtr) st1) (\<lambda>st2.
     andThen (foldEach (GenerateFileBundleBuildStatement_app ext appPtr)
                (appBundledBinaries appPtr) st2) (\<lambda>st3.
     andThen (foldEach (GenerateStagingBundleBuildStatements_component ext fs appPtr)
                (appComponents appPtr) st3) (\<lambda>st4.
       Inr (fst st4
              @ map (\<lambda>exeMapPtr.
                       BundleFileStatement (StagedExePath appPtr (snd exeMapPtr))
                         (''$builddir/'' @ exePath (snd exeMapPtr))
                         \<lparr>readable = True, writeable = False, executable = True\<rparr>)
                  (executables appPtr),
            snd st4)))) = Inr (script', S)"
    by (rule andThen_Inr_staged)
  from r1 obtain st2 where
    2: "foldEach (GenerateDirBundleBuildStatements_app ext fs appPtr)
          (appBundledDirs appPtr) st1 = Inr st2"
    and r2: "andThen (foldEach (GenerateFileBundleBuildStatement_app ext appPtr)
                (appBundledBinaries appPtr) st2) (\<lambda>st3.
     andThen (foldEach (GenerateStagingBundleBuildStatements_component ext fs appPtr)
                (appComponents appPtr) st3) (\<lambda>st4.
       Inr (fst st4
              @ map (\<lambda>exeMapPtr.
                       BundleFileStatement (StagedExePath appPtr (snd exeMapPtr))
                         (''$builddir/'' @ exePath (snd exeMapPtr))
                         \<lparr>readable = True, writeable = False, executable = True\<rparr>)
                  (executables appPtr),
            snd st4))) = Inr (script', S)"
    by (rule andThen_Inr_staged)
  from r2 obtain st3 where
    3: "foldEach (GenerateFileBundleBuildStatement_app ext appPtr)
          (appBundledBinaries appPtr) st2 = Inr st3"
    and r3: "andThen (foldEach (GenerateStagingBundleBuildStatements_component ext fs appPtr)
                (appComponents appPtr) st3) (\<lambda>st4.
       Inr (fst st4
              @ map (\<lambda>exeMapPtr.
                       BundleFileStatement (StagedExePath appPtr (snd exeMapPtr))
                         (''$builddir/'' @ exePath (snd exeMapPtr))
                         \<lparr>readable = True, writeable = False, executable = True\<rparr>)
                  (executables appPtr),
            snd st4)) = Inr (script', S)"
    by (rule andThen_Inr_staged)
  from r3 obtain st4 where
    4: "foldEach (GenerateStagingBundleBuildStatements_component ext fs appPtr)
          (appComponents appPtr) st3 = Inr st4"
    and r4: "Inr (fst st4
              @ map (\<lambda>exeMapPtr.
                       BundleFileStatement (StagedExePath appPtr (snd exeMapPtr))
                         (''$builddir/'' @ exePath (snd exeMapPtr))
                         \<lparr>readable = True, writeable = False, executable = True\<rparr>)
                  (executables appPtr),
            snd st4) = (Inr (script', S) :: failure + (Script \<times> FileSystemObjectSet_t))"
    by (rule andThen_Inr_staged)
  from r4 have 5: "(fst st4
              @ map (\<lambda>exeMapPtr.
                       BundleFileStatement (StagedExePath appPtr (snd exeMapPtr))
                         (''$builddir/'' @ exePath (snd exeMapPtr))
                         \<lparr>readable = True, writeable = False, executable = True\<rparr>)
                  (executables appPtr),
            snd st4) = (script', S)" by simp
  have "staged (script, []) st1"
    using 1 by (rule staged_foldEach [rotated]) (rule staged_File_app)
  moreover have "staged st1 st2"
    using 2 by (rule staged_foldEach [rotated]) (rule staged_Dir_app)
  moreover have "staged st2 st3"
    using 3 by (rule staged_foldEach [rotated]) (rule staged_File_app)
  moreover have "staged st3 st4"
    using 4 by (rule staged_foldEach [rotated]) (rule staged_component)
  ultimately have "staged (script, []) st4" by (blast intro: staged_trans)
  then obtain new where n: "fst st4 = script @ new"
    and r: "\<And>s. s \<in> set new \<Longrightarrow> stmtRule s = ''BundleFile''"
    and o: "\<And>s. s \<in> set new \<Longrightarrow> stmtOutput s \<in> destPath ` set (snd st4)"
    unfolding staged_def by auto
  let ?exes = "map (\<lambda>exeMapPtr.
                       BundleFileStatement (StagedExePath appPtr (snd exeMapPtr))
                         (''$builddir/'' @ exePath (snd exeMapPtr))
                         \<lparr>readable = True, writeable = False, executable = True\<rparr>)
                  (executables appPtr)"
  from 5 n have a: "script' = script @ (new @ ?exes)" and S: "S = snd st4" by auto
  have b: "\<forall>s\<in>set (new @ ?exes). stmtRule s = ''BundleFile''
                 \<and> (stmtOutput s \<in> destPath ` set S
                      \<or> stmtOutput s \<in> (\<lambda>mapItem. StagedExePath appPtr (snd mapItem))
                                          ` set (executables appPtr))"
  proof
    fix s assume "s \<in> set (new @ ?exes)"
    then consider "s \<in> set new" | "s \<in> set ?exes" by auto
    then show "stmtRule s = ''BundleFile''
                 \<and> (stmtOutput s \<in> destPath ` set S
                      \<or> stmtOutput s \<in> (\<lambda>mapItem. StagedExePath appPtr (snd mapItem))
                                          ` set (executables appPtr))"
    proof cases
      case 1
      with r o S show ?thesis by simp
    next
      case 2
      then obtain m where "m \<in> set (executables appPtr)"
        "s = BundleFileStatement (StagedExePath appPtr (snd m))
                         (''$builddir/'' @ exePath (snd m))
                         \<lparr>readable = True, writeable = False, executable = True\<rparr>"
        by auto
      then show ?thesis by (simp add: stmt_BundleFileStatement)
    qed
  qed
  show ?thesis by (intro exI [of _ "new @ ?exes"] conjI a b)
qed

text \<open>
  C8. When \<open>GenerateAppBundleBuildStatement\<close> returns, it has written, after the
  statements for the staging area, the statement that makes info.properties and then the
  statement that packs the update pack. The PackApp statement has the info.properties
  file as its only explicit input and no other dependency. The MakeAppInfoProperties
  statement has among its implicit dependencies every file of the app's set of bundled
  files, every staged executable and the generated config file, and with them the output
  of every BundleFile statement written for the staging area. So the pack depends on all
  of these through info.properties.
\<close>

theorem GenerateAppBundleBuildStatement_dependencies:
  assumes "GenerateAppBundleBuildStatement ext fs buildParams apiFiles appPtr outDir script
             = Inr (script', allBundledFiles)"
  shows "\<exists>staging others.
           script' = script @ staging
                     @ [MakeAppInfoPropertiesStatement ext appPtr allBundledFiles,
                        PackAppStatement ext appPtr outDir] @ others
         \<and> (\<forall>s\<in>set staging. stmtRule s = ''BundleFile''
               \<and> stmtOutput s
                   \<in> set (stmtImplicit (MakeAppInfoPropertiesStatement ext appPtr allBundledFiles)))
         \<and> (\<forall>f\<in>set allBundledFiles. destPath f
               \<in> set (stmtImplicit (MakeAppInfoPropertiesStatement ext appPtr allBundledFiles)))
         \<and> (\<forall>mapItem\<in>set (executables appPtr). StagedExePath appPtr (snd mapItem)
               \<in> set (stmtImplicit (MakeAppInfoPropertiesStatement ext appPtr allBundledFiles)))
         \<and> ''$builddir/'' @ ConfigFilePath appPtr
               \<in> set (stmtImplicit (MakeAppInfoPropertiesStatement ext appPtr allBundledFiles))
         \<and> stmtOutput (MakeAppInfoPropertiesStatement ext appPtr allBundledFiles)
               = InfoPropertiesPath ext appPtr
         \<and> stmtInputs (PackAppStatement ext appPtr outDir) = [InfoPropertiesPath ext appPtr]
         \<and> stmtImplicit (PackAppStatement ext appPtr outDir) = []
         \<and> stmtOrderOnly (PackAppStatement ext appPtr outDir) = []"
proof -
  let ?info = "MakeAppInfoPropertiesStatement ext appPtr allBundledFiles"
  let ?more = "if binPack buildParams then BinPackStatements ext apiFiles appPtr outDir else []"
  from assms [unfolded GenerateAppBundleBuildStatement_def] obtain st where
    st: "GenerateStagingBundleBuildStatements ext fs appPtr (script, []) = Inr st"
    and res': "Inr (fst st @ [MakeAppInfoPropertiesStatement ext appPtr (snd st)]
              @ [PackAppStatement ext appPtr outDir] @ ?more, snd st)
             = (Inr (script', allBundledFiles) :: failure + (Script \<times> FileSystemObjectSet_t))"
    by (rule andThen_Inr_staged)
  from res' have res: "(fst st @ [MakeAppInfoPropertiesStatement ext appPtr (snd st)]
              @ [PackAppStatement ext appPtr outDir] @ ?more, snd st)
             = (script', allBundledFiles)" by (auto split: if_splits)
  from res have S: "snd st = allBundledFiles" by simp
  with st have "GenerateStagingBundleBuildStatements ext fs appPtr (script, [])
                  = Inr (fst st, allBundledFiles)" by (cases st) simp
  from staging_statements [OF this] obtain new where n: "fst st = script @ new"
    and b: "\<And>s. s \<in> set new \<Longrightarrow> stmtRule s = ''BundleFile''
                 \<and> (stmtOutput s \<in> destPath ` set allBundledFiles
                      \<or> stmtOutput s \<in> (\<lambda>mapItem. StagedExePath appPtr (snd mapItem))
                                          ` set (executables appPtr))"
    by blast
  have imp: "set (stmtImplicit ?info)
      = destPath ` set allBundledFiles
        \<union> (\<lambda>mapItem. StagedExePath appPtr (snd mapItem)) ` set (executables appPtr)
        \<union> {''$builddir/'' @ ConfigFilePath appPtr}"
    by (simp add: MakeAppInfoPropertiesStatement_def)
  have 1: "script' = script @ new @ [?info, PackAppStatement ext appPtr outDir] @ ?more"
    using res n S by auto
  have 2: "\<forall>s\<in>set new. stmtRule s = ''BundleFile'' \<and> stmtOutput s \<in> set (stmtImplicit ?info)"
    using b unfolding imp by blast
  have 3: "\<forall>f\<in>set allBundledFiles. destPath f \<in> set (stmtImplicit ?info)"
    unfolding imp by blast
  have 4: "\<forall>mapItem\<in>set (executables appPtr). StagedExePath appPtr (snd mapItem)
               \<in> set (stmtImplicit ?info)"
    unfolding imp by blast
  have 5: "''$builddir/'' @ ConfigFilePath appPtr \<in> set (stmtImplicit ?info)"
    unfolding imp by blast
  have 6: "stmtOutput ?info = InfoPropertiesPath ext appPtr"
    by (simp add: MakeAppInfoPropertiesStatement_def)
  have 7: "stmtInputs (PackAppStatement ext appPtr outDir) = [InfoPropertiesPath ext appPtr]"
    "stmtImplicit (PackAppStatement ext appPtr outDir) = []"
    "stmtOrderOnly (PackAppStatement ext appPtr outDir) = []"
    by (simp_all add: PackAppStatement_def)
  show ?thesis
    by (intro exI [of _ new] exI [of _ ?more] conjI 1 2 3 4 5 6 7)
qed

lemmas eval_gen = bundlingApp_def sampleBuildParams_def emptyApp_def mkFileObject_def
  plainExternals_def joinPath_def GenerateAppBundleBuildStatement_def
  GenerateStagingBundleBuildStatements_def GenerateFileBundleBuildStatement_app_def
  GenerateFileBundleBuildStatement_def set_find_def set_insert_def andThen_def Let_def
  MakeAppInfoPropertiesStatement_def PackAppStatement_def InfoPropertiesPath_def
  StagedExePath_def BundleFileStatement_def PermissionsToModeFlags_def

theorem GenerateAppBundleBuildStatement_dependencies_witness:
  "GenerateAppBundleBuildStatement plainExternals (\<lambda>p. None) sampleBuildParams []
     bundlingApp ''out'' []
   = Inr ([BundleFileStatement ''$builddir/app/a/staging/read-only/x.txt'' ''/a/x.txt''
             \<lparr>readable = True, writeable = False, executable = False\<rparr>,
           BundleFileStatement ''$builddir/app/a/staging/read-only/bin/e''
             ''$builddir/app/a/obj/e''
             \<lparr>readable = True, writeable = False, executable = True\<rparr>,
           \<lparr>stmtOutput = ''$builddir/app/a/staging/info.properties'',
            stmtRule = ''MakeAppInfoProperties'',
            stmtInputs = [],
            stmtImplicit = [''$builddir/app/a/staging/read-only/x.txt'',
                            ''$builddir/app/a/staging/read-only/bin/e'',
                            ''$builddir/app/a/staging/root.cfg''],
            stmtOrderOnly = [],
            stmtVariables = [(''name'', ''a''), (''version'', ''1.0''),
                             (''workingDir'', ''$builddir/app/a'')]\<rparr>,
           \<lparr>stmtOutput = ''out/a.$target.update'',
            stmtRule = ''PackApp'',
            stmtInputs = [''$builddir/app/a/staging/info.properties''],
            stmtImplicit = [],
            stmtOrderOnly = [],
            stmtVariables = [(''name'', ''a''), (''adefPath'', ''a.adef''),
                             (''version'', ''1.0''),
                             (''workingDir'', ''$builddir/app/a'')]\<rparr>],
          [mkFileObject ''/a/x.txt'' ''$builddir/app/a/staging/read-only/x.txt''
             True False False])"
  using GenerateAppBundleBuildStatement_dependencies
    [of plainExternals "\<lambda>p. None" sampleBuildParams "[]" bundlingApp "''out''" "[]"]
  by (simp add: eval_gen)

text \<open>
  For an app with one bundled file and one executable, the staged file and the staged
  executable are not among the inputs of the PackApp statement, whose only input is the
  info.properties file.
\<close>

theorem PackApp_explicit_inputs_counterexample:
  "GenerateAppBundleBuildStatement plainExternals (\<lambda>p. None) sampleBuildParams []
     bundlingApp ''out'' []
   = Inr ([BundleFileStatement ''$builddir/app/a/staging/read-only/x.txt'' ''/a/x.txt''
             \<lparr>readable = True, writeable = False, executable = False\<rparr>,
           BundleFileStatement ''$builddir/app/a/staging/read-only/bin/e''
             ''$builddir/app/a/obj/e''
             \<lparr>readable = True, writeable = False, executable = True\<rparr>,
           MakeAppInfoPropertiesStatement plainExternals bundlingApp
             [mkFileObject ''/a/x.txt'' ''$builddir/app/a/staging/read-only/x.txt''
                True False False],
           PackAppStatement plainExternals bundlingApp ''out''],
          [mkFileObject ''/a/x.txt'' ''$builddir/app/a/staging/read-only/x.txt''
             True False False])
   \<and> stmtOutput (PackAppStatement plainExternals bundlingApp ''out'') = ''out/a.$target.update''
   \<and> stmtInputs (PackAppStatement plainExternals bundlingApp ''out'')
       = [''$builddir/app/a/staging/info.properties'']
   \<and> ''$builddir/app/a/staging/read-only/x.txt''
       \<notin> set (stmtInputs (PackAppStatement plainExternals bundlingApp ''out''))
   \<and> ''$builddir/app/a/staging/read-only/bin/e''
       \<notin> set (stmtInputs (PackAppStatement plainExternals bundlingApp ''out''))"
  by (simp add: eval_gen)

end
